theory Spec2Isabelle
  imports Complex_Main "HOL-Library.Log_Nat"
begin

section \<open>Errors\<close>

text \<open>
  The handlers of \<^verbatim>\<open>backend/server.py\<close> either return a value or raise. A raised
  \<^verbatim>\<open>HTTPException(status_code, detail)\<close> is answered with that status; any other
  exception is not caught anywhere in the file and is answered by the framework with
  status 500.
\<close>

datatype exn =
    InvalidId
  | DuplicateKeyError
  | PasswordValueError
  | ResponseValidationError
  | ZeroDivisionError
  | OverflowError

datatype error = HTTPException nat string | Unhandled exn

fun status_code :: "error \<Rightarrow> nat" where
  "status_code (HTTPException c d) = c"
| "status_code (Unhandled e) = 500"

text \<open>The status of an answer: 200 when the handler returns.\<close>

fun response_status :: "error + 'a \<Rightarrow> nat" where
  "response_status (Inl e) = status_code e"
| "response_status (Inr v) = 200"

section \<open>Object identifiers\<close>

text \<open>
  \<^verbatim>\<open>bson.ObjectId\<close>: twelve bytes, written as 24 hexadecimal digits. \<^verbatim>\<open>ObjectId(s)\<close>
  on a string raises \<^verbatim>\<open>InvalidId\<close> unless \<^verbatim>\<open>len(s) == 24\<close> and \<^verbatim>\<open>bytes.fromhex(s)\<close>
  succeeds; the digits are read case-insensitively and \<^verbatim>\<open>str\<close> prints them in lower
  case. The value is kept as its lower-case digits. (\<^verbatim>\<open>bytes.fromhex\<close> also skips
  blanks between digit pairs; a 24-character string with blanks yields fewer than twelve
  bytes and equals no stored identifier. It is treated here like a malformed string; no
  statement below depends on that case.)
\<close>

datatype object_id = Oid (oid_hex: string)

definition hexdigit :: "char \<Rightarrow> bool" where
  "hexdigit c = (c \<in> set ''0123456789abcdefABCDEF'')"

definition lower_hex :: "char \<Rightarrow> char" where
  "lower_hex c = (case map_of (zip ''ABCDEF'' ''abcdef'') c of Some d \<Rightarrow> d | None \<Rightarrow> c)"

definition ObjectId :: "string \<Rightarrow> exn + object_id" where
  "ObjectId s = (if length s = 24 \<and> list_all hexdigit s
                 then Inr (Oid (map lower_hex s)) else Inl InvalidId)"

definition str_oid :: "object_id \<Rightarrow> string" where
  "str_oid i = oid_hex i"

section \<open>Models\<close>

text \<open>
  Timestamps are whole seconds since the epoch. A Python \<^verbatim>\<open>float\<close> that is only
  stored and printed (\<^verbatim>\<open>price\<close>) is the rational it denotes.
\<close>

type_synonym datetime = int

text \<open>
  Field names that are also the names of handler arguments or of constants carry a
  suffix or prefix: \<open>username_of\<close> and \<open>password_of\<close> are the fields \<^verbatim>\<open>username\<close> and
  \<^verbatim>\<open>password\<close> of the request models, \<open>token_username\<close> is \<^verbatim>\<open>Token.username\<close>, and
  \<open>doc_id\<close> is the key \<^verbatim>\<open>_id\<close> of a document.
\<close>

record UserRegister =
  username_of :: string
  password_of :: string

type_synonym UserLogin = UserRegister


text \<open>
  The six record models. Their common fields are declared once so that
  \<^verbatim>\<open>user_id\<close>, \<^verbatim>\<open>created_at\<close> and \<^verbatim>\<open>quantity\<close> are the same selectors for every
  model; \<^verbatim>\<open>created_at\<close> is \<^verbatim>\<open>Optional[datetime]\<close>, so a client may send null.
\<close>

record Event =
  date :: string
  type :: string
  user_id :: string
  created_at :: "datetime option"

record Counted = Event +
  quantity :: int

record SeedlingReceived = Counted +
  supplier :: string
  price :: rat
  lot_number :: string

record DeliveryNote = Event +
  expected_quantity :: int
  actual_quantity :: int

type_synonym DeadSeedling = Counted

type_synonym DiscardedSeedling = Counted

record NurseryProduced = Counted +
  parent_plant :: string
  propagation_method :: string

record DistributedSeedling = Counted +
  destination :: string
  location :: string

text \<open>
  A document of a collection: the model's dictionary together with its \<^verbatim>\<open>_id\<close>.
  In the store the identifier is an \<^typ>\<open>object_id\<close>; in a response it is its string.
\<close>

record ('i, 'a) document =
  doc_id :: 'i
  doc :: 'a

section \<open>Password hashing\<close>

text \<open>
  \<^verbatim>\<open>pwd_context = CryptContext(schemes=["bcrypt"])\<close>. A bcrypt hash is kept symbolically
  as the salt and the bytes that were hashed: bcrypt reads at most the first 72 bytes of
  the secret, and the library refuses a secret that contains a NUL byte
  (\<^verbatim>\<open>PasswordValueError\<close>) both when hashing and when verifying. The salt is drawn by the
  library; here it is an argument.
\<close>

datatype pwhash = Bcrypt (salt_of: string) (hashed_bytes: string)

definition get_password_hash :: "string \<Rightarrow> string \<Rightarrow> exn + pwhash" where
  "get_password_hash salt password =
     (if CHR 0x00 \<in> set password then Inl PasswordValueError
      else Inr (Bcrypt salt (take 72 password)))"

definition verify_password :: "string \<Rightarrow> pwhash \<Rightarrow> exn + bool" where
  "verify_password plain_password hashed_password =
     (if CHR 0x00 \<in> set plain_password then Inl PasswordValueError
      else Inr (take 72 plain_password = hashed_bytes hashed_password))"

section \<open>Bearer tokens\<close>

text \<open>
  A JSON Web Token is kept symbolically: the algorithm of its header, its claims and the
  key that signed it; any other string of the \<^verbatim>\<open>Authorization\<close> header is \<open>Malformed\<close>.
  \<^verbatim>\<open>jwt.decode(token, key, algorithms)\<close> checks the algorithm and the signature first
  and the expiry after that; a token is expired when \<^verbatim>\<open>exp <= now\<close>.
\<close>

record claims =
  sub :: "string option"
  exp :: "datetime option"

datatype token = JWT string claims string | Malformed string

record Token =
  access_token :: token
  token_type :: string
  token_username :: string

datatype jwt_error = ExpiredSignatureError | JWTError

definition SECRET_KEY :: string where
  "SECRET_KEY = ''nursery_secret_key_change_in_production''"

definition ALGORITHM :: string where
  "ALGORITHM = ''HS256''"

definition jwt_encode :: "claims \<Rightarrow> string \<Rightarrow> string \<Rightarrow> token" where
  "jwt_encode payload key algorithm = JWT algorithm payload key"

fun jwt_decode :: "datetime \<Rightarrow> token \<Rightarrow> string \<Rightarrow> string list \<Rightarrow> jwt_error + claims" where
  "jwt_decode now (Malformed s) key algorithms = Inl JWTError"
| "jwt_decode now (JWT alg payload k) key algorithms =
     (if alg \<notin> set algorithms then Inl JWTError
      else if k \<noteq> key then Inl JWTError
      else case exp payload of
             None \<Rightarrow> Inr payload
           | Some e \<Rightarrow> if e \<le> now then Inl ExpiredSignatureError else Inr payload)"

definition create_access_token :: "datetime \<Rightarrow> claims \<Rightarrow> token" where
  "create_access_token now data =
     (let expire = now + 30 * 86400;
          to_encode = data\<lparr>exp := Some expire\<rparr>
      in jwt_encode to_encode SECRET_KEY ALGORITHM)"

definition get_current_user :: "datetime \<Rightarrow> token \<Rightarrow> error + string" where
  "get_current_user now credentials =
     (case jwt_decode now credentials SECRET_KEY [ALGORITHM] of
        Inl ExpiredSignatureError \<Rightarrow> Inl (HTTPException 401 ''Token expired'')
      | Inl JWTError \<Rightarrow> Inl (HTTPException 401 ''Invalid token'')
      | Inr payload \<Rightarrow>
          (case sub payload of
             None \<Rightarrow> Inl (HTTPException 401 ''Invalid token'')
           | Some username \<Rightarrow> Inr username))"

section \<open>The document store\<close>

text \<open>
  A collection is the list of its documents in insertion order. \<^verbatim>\<open>insert_one\<close> takes the
  identifier the driver generates and refuses one that is already in the collection
  (the unique index on \<^verbatim>\<open>_id\<close>). \<^verbatim>\<open>find(filter).to_list(n)\<close> returns the first \<open>n\<close>
  matches; \<^verbatim>\<open>delete_one\<close> removes the first match and reports how many it removed.
\<close>

record user_doc =
  user_name :: string
  user_password :: pwhash
  user_created_at :: datetime

record db =
  users :: "(object_id, user_doc) document list"
  seedlings_received :: "(object_id, SeedlingReceived) document list"
  delivery_notes :: "(object_id, DeliveryNote) document list"
  dead_seedlings :: "(object_id, DeadSeedling) document list"
  discarded_seedlings :: "(object_id, DiscardedSeedling) document list"
  nursery_produced :: "(object_id, NurseryProduced) document list"
  distributed_seedlings :: "(object_id, DistributedSeedling) document list"

definition insert_one ::
  "(object_id, 'a) document list \<Rightarrow> object_id \<Rightarrow> 'a \<Rightarrow> exn + (object_id, 'a) document list" where
  "insert_one coll new_id d =
     (if new_id \<in> set (map doc_id coll) then Inl DuplicateKeyError
      else Inr (coll @ [\<lparr>doc_id = new_id, doc = d\<rparr>]))"

definition find_to_list ::
  "(object_id, 'a) document list \<Rightarrow> ((object_id, 'a) document \<Rightarrow> bool) \<Rightarrow> nat
     \<Rightarrow> (object_id, 'a) document list" where
  "find_to_list coll flt n = take n (filter flt coll)"

fun delete_one ::
  "(object_id, 'a) document list \<Rightarrow> ((object_id, 'a) document \<Rightarrow> bool)
     \<Rightarrow> nat \<times> (object_id, 'a) document list" where
  "delete_one [] flt = (0, [])"
| "delete_one (d # ds) flt =
     (if flt d then (1, ds) else (case delete_one ds flt of (n, ds') \<Rightarrow> (n, d # ds')))"

text \<open>
  \<^verbatim>\<open>.sort("created_at", -1)\<close>: descending by creation time, where null sorts below
  every date. The order among equal keys is not fixed by the store; the insertion sort
  below is one admissible choice.
\<close>

fun created_ge :: "datetime option \<Rightarrow> datetime option \<Rightarrow> bool" where
  "created_ge a None = True"
| "created_ge None (Some y) = False"
| "created_ge (Some x) (Some y) = (y \<le> x)"

fun insert_desc ::
  "('i, 'a Event_scheme) document \<Rightarrow> ('i, 'a Event_scheme) document list
     \<Rightarrow> ('i, 'a Event_scheme) document list" where
  "insert_desc x [] = [x]"
| "insert_desc x (y # ys) =
     (if created_ge (created_at (doc x)) (created_at (doc y)) then x # y # ys
      else y # insert_desc x ys)"

definition sort_created_desc ::
  "('i, 'a Event_scheme) document list \<Rightarrow> ('i, 'a Event_scheme) document list" where
  "sort_created_desc xs = foldr insert_desc xs []"

definition find_sorted_to_list ::
  "(object_id, 'a Event_scheme) document list
     \<Rightarrow> ((object_id, 'a Event_scheme) document \<Rightarrow> bool) \<Rightarrow> nat
     \<Rightarrow> (object_id, 'a Event_scheme) document list" where
  "find_sorted_to_list coll flt n = take n (sort_created_desc (filter flt coll))"

text \<open>The filter \<^verbatim>\<open>{"user_id": username}\<close> and the filter
  \<^verbatim>\<open>{"_id": oid, "user_id": username}\<close>.\<close>

definition by_user :: "string \<Rightarrow> ('i, 'a Event_scheme) document \<Rightarrow> bool" where
  "by_user u d = (user_id (doc d) = u)"

definition by_id_user :: "'i \<Rightarrow> string \<Rightarrow> ('i, 'a Event_scheme) document \<Rightarrow> bool" where
  "by_id_user i u d = (doc_id d = i \<and> user_id (doc d) = u)"

text \<open>\<^verbatim>\<open>s["_id"] = str(s["_id"])\<close> on every document of a result.\<close>

definition str_id :: "(object_id, 'a) document \<Rightarrow> (string, 'a) document" where
  "str_id d = \<lparr>doc_id = str_oid (doc_id d), doc = doc d\<rparr>"

definition find_one :: "(object_id, 'a) document list \<Rightarrow> ((object_id, 'a) document \<Rightarrow> bool)
     \<Rightarrow> (object_id, 'a) document option" where
  "find_one coll flt = (case filter flt coll of [] \<Rightarrow> None | d # ds \<Rightarrow> Some d)"

text \<open>The filter \<^verbatim>\<open>{"username": name}\<close> on the users collection.\<close>

definition by_username :: "string \<Rightarrow> ('i, user_doc) document \<Rightarrow> bool" where
  "by_username u d = (user_name (doc d) = u)"

section \<open>Auth endpoints\<close>

text \<open>
  A handler takes the state of the store and returns its answer together with the new
  state. What the handler draws from its environment is an argument: the clock reading
  \<open>now\<close> (one reading for a request: its clock reads fall in the same second), the salt
  of the hash and the identifier generated for an inserted document.
\<close>

definition register ::
  "db \<Rightarrow> datetime \<Rightarrow> string \<Rightarrow> object_id \<Rightarrow> UserRegister \<Rightarrow> (error + Token) \<times> db" where
  "register db now salt new_id user =
     (case find_one (users db) (by_username (username_of user)) of
        Some existing_user \<Rightarrow> (Inl (HTTPException 400 ''Username already exists''), db)
      | None \<Rightarrow>
          (case get_password_hash salt (password_of user) of
             Inl e \<Rightarrow> (Inl (Unhandled e), db)
           | Inr hashed_password \<Rightarrow>
               (let user_doc = \<lparr>user_name = username_of user,
                                user_password = hashed_password,
                                user_created_at = now\<rparr>
                in case insert_one (users db) new_id user_doc of
                     Inl e \<Rightarrow> (Inl (Unhandled e), db)
                   | Inr coll \<Rightarrow>
                       (let access_token =
                              create_access_token now \<lparr>sub = Some (username_of user), exp = None\<rparr>
                        in (Inr \<lparr>access_token = access_token, token_type = ''bearer'',
                                 token_username = username_of user\<rparr>,
                            db\<lparr>users := coll\<rparr>)))))"

definition login :: "db \<Rightarrow> datetime \<Rightarrow> UserLogin \<Rightarrow> error + Token" where
  "login db now user =
     (case find_one (users db) (by_username (username_of user)) of
        None \<Rightarrow> Inl (HTTPException 401 ''Invalid credentials'')
      | Some db_user \<Rightarrow>
          (case verify_password (password_of user) (user_password (doc db_user)) of
             Inl e \<Rightarrow> Inl (Unhandled e)
           | Inr ok \<Rightarrow>
               if \<not> ok then Inl (HTTPException 401 ''Invalid credentials'')
               else (let access_token =
                           create_access_token now \<lparr>sub = Some (username_of user), exp = None\<rparr>
                     in Inr \<lparr>access_token = access_token, token_type = ''bearer'',
                             token_username = username_of user\<rparr>)))"

section \<open>Record endpoints\<close>

text \<open>
  Each handler below receives the \<open>username\<close> that \<^const>\<open>get_current_user\<close> returned
  for the request. The six resources have the same three handlers.
\<close>

subsection \<open>Seedlings Received\<close>

definition create_seedling_received ::
  "db \<Rightarrow> object_id \<Rightarrow> SeedlingReceived \<Rightarrow> string \<Rightarrow> (error + (string, SeedlingReceived) document) \<times> db" where
  "create_seedling_received db new_id seedling username =
     (let seedling_dict = seedling\<lparr>user_id := username\<rparr>
      in case insert_one (seedlings_received db) new_id seedling_dict of
           Inl e \<Rightarrow> (Inl (Unhandled e), db)
         | Inr coll \<Rightarrow>
             (Inr \<lparr>doc_id = str_oid new_id, doc = seedling_dict\<rparr>, db\<lparr>seedlings_received := coll\<rparr>))"

definition get_seedlings_received :: "db \<Rightarrow> string \<Rightarrow> (string, SeedlingReceived) document list" where
  "get_seedlings_received db username =
     map str_id (find_sorted_to_list (seedlings_received db) (by_user username) 1000)"

definition delete_seedling_received :: "db \<Rightarrow> string \<Rightarrow> string \<Rightarrow> (error + string) \<times> db" where
  "delete_seedling_received db id' username =
     (case ObjectId id' of
        Inl e \<Rightarrow> (Inl (Unhandled e), db)
      | Inr oid \<Rightarrow>
          (case delete_one (seedlings_received db) (by_id_user oid username) of
             (deleted_count, coll) \<Rightarrow>
               if deleted_count = 0
               then (Inl (HTTPException 404 ''Item not found''), db\<lparr>seedlings_received := coll\<rparr>)
               else (Inr ''Deleted successfully'', db\<lparr>seedlings_received := coll\<rparr>)))"

subsection \<open>Delivery Notes\<close>

definition create_delivery_note ::
  "db \<Rightarrow> object_id \<Rightarrow> DeliveryNote \<Rightarrow> string \<Rightarrow> (error + (string, DeliveryNote) document) \<times> db" where
  "create_delivery_note db new_id note username =
     (let note_dict = note\<lparr>user_id := username\<rparr>
      in case insert_one (delivery_notes db) new_id note_dict of
           Inl e \<Rightarrow> (Inl (Unhandled e), db)
         | Inr coll \<Rightarrow>
             (Inr \<lparr>doc_id = str_oid new_id, doc = note_dict\<rparr>, db\<lparr>delivery_notes := coll\<rparr>))"

definition get_delivery_notes :: "db \<Rightarrow> string \<Rightarrow> (string, DeliveryNote) document list" where
  "get_delivery_notes db username =
     map str_id (find_sorted_to_list (delivery_notes db) (by_user username) 1000)"

definition delete_delivery_note :: "db \<Rightarrow> string \<Rightarrow> string \<Rightarrow> (error + string) \<times> db" where
  "delete_delivery_note db id' username =
     (case ObjectId id' of
        Inl e \<Rightarrow> (Inl (Unhandled e), db)
      | Inr oid \<Rightarrow>
          (case delete_one (delivery_notes db) (by_id_user oid username) of
             (deleted_count, coll) \<Rightarrow>
               if deleted_count = 0
               then (Inl (HTTPException 404 ''Item not found''), db\<lparr>delivery_notes := coll\<rparr>)
               else (Inr ''Deleted successfully'', db\<lparr>delivery_notes := coll\<rparr>)))"

subsection \<open>Dead Seedlings\<close>

definition create_dead_seedling ::
  "db \<Rightarrow> object_id \<Rightarrow> DeadSeedling \<Rightarrow> string \<Rightarrow> (error + (string, DeadSeedling) document) \<times> db" where
  "create_dead_seedling db new_id seedling username =
     (let seedling_dict = seedling\<lparr>user_id := username\<rparr>
      in case insert_one (dead_seedlings db) new_id seedling_dict of
           Inl e \<Rightarrow> (Inl (Unhandled e), db)
         | Inr coll \<Rightarrow>
             (Inr \<lparr>doc_id = str_oid new_id, doc = seedling_dict\<rparr>, db\<lparr>dead_seedlings := coll\<rparr>))"

definition get_dead_seedlings :: "db \<Rightarrow> string \<Rightarrow> (string, DeadSeedling) document list" where
  "get_dead_seedlings db username =
     map str_id (find_sorted_to_list (dead_seedlings db) (by_user username) 1000)"

definition delete_dead_seedling :: "db \<Rightarrow> string \<Rightarrow> string \<Rightarrow> (error + string) \<times> db" where
  "delete_dead_seedling db id' username =
     (case ObjectId id' of
        Inl e \<Rightarrow> (Inl (Unhandled e), db)
      | Inr oid \<Rightarrow>
          (case delete_one (dead_seedlings db) (by_id_user oid username) of
             (deleted_count, coll) \<Rightarrow>
               if deleted_count = 0
               then (Inl (HTTPException 404 ''Item not found''), db\<lparr>dead_seedlings := coll\<rparr>)
               else (Inr ''Deleted successfully'', db\<lparr>dead_seedlings := coll\<rparr>)))"

subsection \<open>Discarded Seedlings\<close>

definition create_discarded_seedling ::
  "db \<Rightarrow> object_id \<Rightarrow> DiscardedSeedling \<Rightarrow> string \<Rightarrow> (error + (string, DiscardedSeedling) document) \<times> db" where
  "create_discarded_seedling db new_id seedling username =
     (let seedling_dict = seedling\<lparr>user_id := username\<rparr>
      in case insert_one (discarded_seedlings db) new_id seedling_dict of
           Inl e \<Rightarrow> (Inl (Unhandled e), db)
         | Inr coll \<Rightarrow>
             (Inr \<lparr>doc_id = str_oid new_id, doc = seedling_dict\<rparr>, db\<lparr>discarded_seedlings := coll\<rparr>))"

definition get_discarded_seedlings :: "db \<Rightarrow> string \<Rightarrow> (string, DiscardedSeedling) document list" where
  "get_discarded_seedlings db username =
     map str_id (find_sorted_to_list (discarded_seedlings db) (by_user username) 1000)"

definition delete_discarded_seedling :: "db \<Rightarrow> string \<Rightarrow> string \<Rightarrow> (error + string) \<times> db" where
  "delete_discarded_seedling db id' username =
     (case ObjectId id' of
        Inl e \<Rightarrow> (Inl (Unhandled e), db)
      | Inr oid \<Rightarrow>
          (case delete_one (discarded_seedlings db) (by_id_user oid username) of
             (deleted_count, coll) \<Rightarrow>
               if deleted_count = 0
               then (Inl (HTTPException 404 ''Item not found''), db\<lparr>discarded_seedlings := coll\<rparr>)
               else (Inr ''Deleted successfully'', db\<lparr>discarded_seedlings := coll\<rparr>)))"

subsection \<open>Nursery Produced\<close>

definition create_nursery_produced ::
  "db \<Rightarrow> object_id \<Rightarrow> NurseryProduced \<Rightarrow> string \<Rightarrow> (error + (string, NurseryProduced) document) \<times> db" where
  "create_nursery_produced db new_id seedling username =
     (let seedling_dict = seedling\<lparr>user_id := username\<rparr>
      in case insert_one (nursery_produced db) new_id seedling_dict of
           Inl e \<Rightarrow> (Inl (Unhandled e), db)
         | Inr coll \<Rightarrow>
             (Inr \<lparr>doc_id = str_oid new_id, doc = seedling_dict\<rparr>, db\<lparr>nursery_produced := coll\<rparr>))"

definition get_nursery_produced :: "db \<Rightarrow> string \<Rightarrow> (string, NurseryProduced) document list" where
  "get_nursery_produced db username =
     map str_id (find_sorted_to_list (nursery_produced db) (by_user username) 1000)"

definition delete_nursery_produced :: "db \<Rightarrow> string \<Rightarrow> string \<Rightarrow> (error + string) \<times> db" where
  "delete_nursery_produced db id' username =
     (case ObjectId id' of
        Inl e \<Rightarrow> (Inl (Unhandled e), db)
      | Inr oid \<Rightarrow>
          (case delete_one (nursery_produced db) (by_id_user oid username) of
             (deleted_count, coll) \<Rightarrow>
               if deleted_count = 0
               then (Inl (HTTPException 404 ''Item not found''), db\<lparr>nursery_produced := coll\<rparr>)
               else (Inr ''Deleted successfully'', db\<lparr>nursery_produced := coll\<rparr>)))"

subsection \<open>Distributed Seedlings\<close>

definition create_distributed_seedling ::
  "db \<Rightarrow> object_id \<Rightarrow> DistributedSeedling \<Rightarrow> string \<Rightarrow> (error + (string, DistributedSeedling) document) \<times> db" where
  "create_distributed_seedling db new_id seedling username =
     (let seedling_dict = seedling\<lparr>user_id := username\<rparr>
      in case insert_one (distributed_seedlings db) new_id seedling_dict of
           Inl e \<Rightarrow> (Inl (Unhandled e), db)
         | Inr coll \<Rightarrow>
             (Inr \<lparr>doc_id = str_oid new_id, doc = seedling_dict\<rparr>, db\<lparr>distributed_seedlings := coll\<rparr>))"

definition get_distributed_seedlings :: "db \<Rightarrow> string \<Rightarrow> (string, DistributedSeedling) document list" where
  "get_distributed_seedlings db username =
     map str_id (find_sorted_to_list (distributed_seedlings db) (by_user username) 1000)"

definition delete_distributed_seedling :: "db \<Rightarrow> string \<Rightarrow> string \<Rightarrow> (error + string) \<times> db" where
  "delete_distributed_seedling db id' username =
     (case ObjectId id' of
        Inl e \<Rightarrow> (Inl (Unhandled e), db)
      | Inr oid \<Rightarrow>
          (case delete_one (distributed_seedlings db) (by_id_user oid username) of
             (deleted_count, coll) \<Rightarrow>
               if deleted_count = 0
               then (Inl (HTTPException 404 ''Item not found''), db\<lparr>distributed_seedlings := coll\<rparr>)
               else (Inr ''Deleted successfully'', db\<lparr>distributed_seedlings := coll\<rparr>)))"

section \<open>Floating-point arithmetic\<close>

text \<open>
  A Python \<^verbatim>\<open>float\<close> is an IEEE 754 binary64 number: a finite value is the rational it
  denotes (the two zeros are identified). \<open>rnd53\<close> rounds a rational to the nearest
  number with a 53-bit significand, ties to even, with gradual underflow below
  \<open>2\<^sup>-\<^sup>1\<^sup>0\<^sup>2\<^sup>2\<close>.
\<close>

datatype float = Fin rat | PInf | NInf | NaN

definition pow2 :: "int \<Rightarrow> rat" where
  "pow2 k = (if 0 \<le> k then 2 ^ nat k else 1 / 2 ^ nat (- k))"

definition round_half_even :: "rat \<Rightarrow> int" where
  "round_half_even x =
     (let f = \<lfloor>x\<rfloor>; r = x - of_int f
      in if r < 1 / 2 then f else if 1 / 2 < r then f + 1 else if even f then f else f + 1)"

text \<open>\<open>binexp x\<close> is the exponent \<open>e\<close> with \<open>2\<^sup>e \<le> \<bar>x\<bar> < 2\<^sup>e\<^sup>+\<^sup>1\<close>, for \<open>x \<noteq> 0\<close>.\<close>

definition binexp :: "rat \<Rightarrow> int" where
  "binexp x =
     (case quotient_of \<bar>x\<bar> of
        (p, q) \<Rightarrow> (let k = bitlen p - bitlen q in if pow2 k \<le> \<bar>x\<bar> then k else k - 1))"

definition rnd53 :: "rat \<Rightarrow> rat" where
  "rnd53 x =
     (if x = 0 then 0
      else (let e = max (binexp x) (- 1022); ulp = pow2 (e - 52)
            in of_int (round_half_even (x / ulp)) * ulp))"

text \<open>
  Rounding to nearest overflows exactly when the magnitude reaches \<open>2\<^sup>1\<^sup>0\<^sup>2\<^sup>4 - 2\<^sup>9\<^sup>7\<^sup>0\<close>, half
  a unit in the last place above the largest finite number.
\<close>

definition overflow_threshold :: rat where
  "overflow_threshold = 2 ^ 1024 - 2 ^ 970"

definition to_float :: "rat \<Rightarrow> float" where
  "to_float x =
     (if overflow_threshold \<le> x then PInf
      else if x \<le> - overflow_threshold then NInf
      else Fin (rnd53 x))"

text \<open>
  \<^verbatim>\<open>a / b\<close> on two Python integers: the correctly rounded quotient, \<^verbatim>\<open>ZeroDivisionError\<close>
  for a zero divisor and \<^verbatim>\<open>OverflowError\<close> when the quotient is too large for a float.
\<close>

definition int_truediv :: "int \<Rightarrow> int \<Rightarrow> exn + float" where
  "int_truediv a b =
     (if b = 0 then Inl ZeroDivisionError
      else (case to_float (of_int a / of_int b) of
              Fin r \<Rightarrow> Inr (Fin r)
            | PInf \<Rightarrow> Inl OverflowError
            | NInf \<Rightarrow> Inl OverflowError
            | NaN \<Rightarrow> Inl OverflowError))"

fun float_mul :: "float \<Rightarrow> float \<Rightarrow> float" where
  "float_mul (Fin x) (Fin y) = to_float (x * y)"
| "float_mul NaN b = NaN"
| "float_mul a NaN = NaN"
| "float_mul (Fin x) PInf = (if x = 0 then NaN else if 0 < x then PInf else NInf)"
| "float_mul (Fin x) NInf = (if x = 0 then NaN else if 0 < x then NInf else PInf)"
| "float_mul PInf (Fin y) = (if y = 0 then NaN else if 0 < y then PInf else NInf)"
| "float_mul NInf (Fin y) = (if y = 0 then NaN else if 0 < y then NInf else PInf)"
| "float_mul PInf PInf = PInf"
| "float_mul PInf NInf = NInf"
| "float_mul NInf PInf = NInf"
| "float_mul NInf NInf = PInf"

text \<open>
  \<^verbatim>\<open>round(x, ndigits)\<close> on a float, for the small non-negative \<open>ndigits\<close> used here: the
  exact value of \<open>x\<close> is rounded to \<open>ndigits\<close> decimals, ties to even, and the decimal
  is converted back to the nearest float. Infinities and NaN round to themselves.
\<close>

fun float_round :: "float \<Rightarrow> nat \<Rightarrow> float" where
  "float_round (Fin x) ndigits =
     Fin (rnd53 (of_int (round_half_even (x * 10 ^ ndigits)) / 10 ^ ndigits))"
| "float_round a ndigits = a"

text \<open>The numbers of a JSON answer: a Python \<^verbatim>\<open>int\<close> or a \<^verbatim>\<open>float\<close>.\<close>

datatype number = VInt int | VFloat float

text \<open>\<^verbatim>\<open>round(v, 2)\<close>: an \<^verbatim>\<open>int\<close> is returned as it is.\<close>

fun py_round :: "number \<Rightarrow> nat \<Rightarrow> number" where
  "py_round (VInt n) ndigits = VInt n"
| "py_round (VFloat a) ndigits = VFloat (float_round a ndigits)"

section \<open>Dashboard statistics\<close>

record DashboardStats =
  total_received :: int
  total_dead :: int
  total_discarded :: int
  total_produced :: int
  total_distributed :: int
  survival_rate :: float
  total_in_nursery :: int

text \<open>
  The body of the handler. Every stored document comes from a model's \<^verbatim>\<open>dict()\<close>, so
  \<^verbatim>\<open>s.get("quantity", 0)\<close> finds the key. The answer is the dictionary the handler
  builds, in the order of its keys.
\<close>

definition get_dashboard_stats :: "db \<Rightarrow> string \<Rightarrow> error + (string \<times> number) list" where
  "get_dashboard_stats db username =
     (let received = find_to_list (seedlings_received db) (by_user username) 1000;
          dead = find_to_list (dead_seedlings db) (by_user username) 1000;
          discarded = find_to_list (discarded_seedlings db) (by_user username) 1000;
          produced = find_to_list (nursery_produced db) (by_user username) 1000;
          total_received' = sum_list (map (\<lambda>s. quantity (doc s)) received);
          total_dead' = sum_list (map (\<lambda>s. quantity (doc s)) dead);
          total_discarded' = sum_list (map (\<lambda>s. quantity (doc s)) discarded);
          total_produced' = sum_list (map (\<lambda>s. quantity (doc s)) produced);
          total_in_nursery' = total_received' + total_produced' - total_dead' - total_discarded';
          total_input = total_received' + total_produced'
      in case (if total_input > 0
               then (case int_truediv total_in_nursery' total_input of
                       Inl e \<Rightarrow> Inl e
                     | Inr q \<Rightarrow> Inr (VFloat (float_mul q (Fin 100))))
               else Inr (VInt 0)) of
           Inl e \<Rightarrow> Inl (Unhandled e)
         | Inr survival_rate' \<Rightarrow>
             Inr [(''total_received'', VInt total_received'),
                  (''total_dead'', VInt total_dead'),
                  (''total_discarded'', VInt total_discarded'),
                  (''total_produced'', VInt total_produced'),
                  (''survival_rate'', py_round survival_rate' 2),
                  (''total_in_nursery'', VInt total_in_nursery')])"

text \<open>
  The route is declared with \<^verbatim>\<open>response_model=DashboardStats\<close>: the framework validates
  what the handler returns against the model, whose seven fields are all required, and
  raises when the validation fails. An \<^verbatim>\<open>int\<close> is accepted for a \<^verbatim>\<open>float\<close> field;
  the handler never puts a \<^verbatim>\<open>float\<close> under an \<^verbatim>\<open>int\<close> field.
\<close>

definition int_field :: "(string \<times> number) list \<Rightarrow> string \<Rightarrow> exn + int" where
  "int_field content k =
     (case map_of content k of Some (VInt n) \<Rightarrow> Inr n | Some (VFloat a) \<Rightarrow> Inl ResponseValidationError
      | None \<Rightarrow> Inl ResponseValidationError)"

definition float_field :: "(string \<times> number) list \<Rightarrow> string \<Rightarrow> exn + float" where
  "float_field content k =
     (case map_of content k of Some (VInt n) \<Rightarrow> Inr (to_float (of_int n)) | Some (VFloat a) \<Rightarrow> Inr a
      | None \<Rightarrow> Inl ResponseValidationError)"

definition validate_DashboardStats :: "(string \<times> number) list \<Rightarrow> exn + DashboardStats" where
  "validate_DashboardStats content =
     (case (int_field content ''total_received'', int_field content ''total_dead'',
            int_field content ''total_discarded'', int_field content ''total_produced'',
            int_field content ''total_distributed'', float_field content ''survival_rate'',
            int_field content ''total_in_nursery'') of
        (Inr r, Inr d, Inr x, Inr p, Inr t, Inr s, Inr n) \<Rightarrow>
          Inr \<lparr>total_received = r, total_dead = d, total_discarded = x, total_produced = p,
               total_distributed = t, survival_rate = s, total_in_nursery = n\<rparr>
      | _ \<Rightarrow> Inl ResponseValidationError)"

definition dashboard_stats_route :: "db \<Rightarrow> string \<Rightarrow> error + DashboardStats" where
  "dashboard_stats_route db username =
     (case get_dashboard_stats db username of
        Inl e \<Rightarrow> Inl e
      | Inr content \<Rightarrow>
          (case validate_DashboardStats content of
             Inl e \<Rightarrow> Inl (Unhandled e)
           | Inr stats \<Rightarrow> Inr stats))"

section \<open>Export to CSV\<close>

text \<open>
  The handler writes to a \<^verbatim>\<open>StringIO\<close>: section headers with \<^verbatim>\<open>output.write\<close>, and
  for a non-empty section the column names with \<^verbatim>\<open>writer.writeheader()\<close> and one
  \<^verbatim>\<open>writer.writerow\<close> for each item. The body of the answer is kept as the sequence of
  these writes; \<open>getvalue\<close> turns it into text, given the line that the CSV library
  prints for a row. The \<^verbatim>\<open>Content-Disposition\<close> header of the answer is not modelled.
\<close>

datatype cell = CStr string | CInt int | CFloat rat

datatype written = Write string | WriteHeader "string list" | WriteRow "cell list"

definition export_to_csv :: "db \<Rightarrow> string \<Rightarrow> written list" where
  "export_to_csv db username =
     (let received = find_to_list (seedlings_received db) (by_user username) 1000;
          delivery = find_to_list (delivery_notes db) (by_user username) 1000;
          dead = find_to_list (dead_seedlings db) (by_user username) 1000;
          discarded = find_to_list (discarded_seedlings db) (by_user username) 1000;
          produced = find_to_list (nursery_produced db) (by_user username) 1000
      in [Write ''\<newline>=== SEEDLINGS RECEIVED ===\<newline>'']
         @ (if received \<noteq> []
            then WriteHeader [''date'', ''type'', ''supplier'', ''price'', ''lot_number'', ''quantity'']
                 # map (\<lambda>item. WriteRow [CStr (date (doc item)), CStr (type (doc item)),
                                           CStr (supplier (doc item)), CFloat (price (doc item)),
                                           CStr (lot_number (doc item)),
                                           CInt (quantity (doc item))]) received
            else [])
         @ [Write ''\<newline>\<newline>=== DELIVERY NOTES ===\<newline>'']
         @ (if delivery \<noteq> []
            then WriteHeader [''date'', ''type'', ''expected_quantity'', ''actual_quantity'']
                 # map (\<lambda>item. WriteRow [CStr (date (doc item)), CStr (type (doc item)),
                                           CInt (expected_quantity (doc item)),
                                           CInt (actual_quantity (doc item))]) delivery
            else [])
         @ [Write ''\<newline>\<newline>=== DEAD SEEDLINGS ===\<newline>'']
         @ (if dead \<noteq> []
            then WriteHeader [''date'', ''type'', ''quantity'']
                 # map (\<lambda>item. WriteRow [CStr (date (doc item)), CStr (type (doc item)),
                                           CInt (quantity (doc item))]) dead
            else [])
         @ [Write ''\<newline>\<newline>=== DISCARDED SEEDLINGS ===\<newline>'']
         @ (if discarded \<noteq> []
            then WriteHeader [''date'', ''type'', ''quantity'']
                 # map (\<lambda>item. WriteRow [CStr (date (doc item)), CStr (type (doc item)),
                                           CInt (quantity (doc item))]) discarded
            else [])
         @ [Write ''\<newline>\<newline>=== NURSERY PRODUCED ===\<newline>'']
         @ (if produced \<noteq> []
            then WriteHeader [''date'', ''type'', ''quantity'', ''parent_plant'',
                              ''propagation_method'']
                 # map (\<lambda>item. WriteRow [CStr (date (doc item)), CStr (type (doc item)),
                                           CInt (quantity (doc item)),
                                           CStr (parent_plant (doc item)),
                                           CStr (propagation_method (doc item))]) produced
            else []))"

fun getvalue :: "(written \<Rightarrow> string) \<Rightarrow> written list \<Rightarrow> string" where
  "getvalue csv_line [] = []"
| "getvalue csv_line (Write s # ws) = s @ getvalue csv_line ws"
| "getvalue csv_line (w # ws) = csv_line w @ getvalue csv_line ws"

fun section_headers :: "written list \<Rightarrow> string list" where
  "section_headers [] = []"
| "section_headers (Write s # ws) = s # section_headers ws"
| "section_headers (w # ws) = section_headers ws"

fun table_writes :: "written list \<Rightarrow> written list" where
  "table_writes [] = []"
| "table_writes (Write s # ws) = table_writes ws"
| "table_writes (w # ws) = w # table_writes ws"

section \<open>Notions used in the statements\<close>

text \<open>Newest-created-first: no document is followed by one created later.\<close>

definition newest_first :: "('i, 'a Event_scheme) document list \<Rightarrow> bool" where
  "newest_first xs = sorted_wrt (\<lambda>a b. created_ge (created_at (doc a)) (created_at (doc b))) xs"

text \<open>The invariant that the unique index on \<^verbatim>\<open>_id\<close> maintains in every collection.\<close>

definition unique_ids :: "db \<Rightarrow> bool" where
  "unique_ids db =
     (distinct (map doc_id (users db)) \<and> distinct (map doc_id (seedlings_received db)) \<and>
      distinct (map doc_id (delivery_notes db)) \<and> distinct (map doc_id (dead_seedlings db)) \<and>
      distinct (map doc_id (discarded_seedlings db)) \<and>
      distinct (map doc_id (nursery_produced db)) \<and>
      distinct (map doc_id (distributed_seedlings db)))"

text \<open>
  The sum of \<^verbatim>\<open>quantity\<close> over what \<^verbatim>\<open>find({"user_id": u}).to_list(1000)\<close> returns: the
  first 1000 documents of the owner.
\<close>

definition owner_total :: "(object_id, 'a Counted_scheme) document list \<Rightarrow> string \<Rightarrow> int" where
  "owner_total coll u = sum_list (map (\<lambda>s. quantity (doc s)) (find_to_list coll (by_user u) 1000))"

text \<open>The float that the decimal literal \<open>m \<times> 10\<^sup>-\<^sup>n\<close> denotes, as \<open>83.33\<close> for
  \<open>decimal 8333 2\<close>.\<close>

definition decimal :: "int \<Rightarrow> nat \<Rightarrow> float" where
  "decimal m n = to_float (of_int m / 10 ^ n)"

text \<open>
  The survival rate as the specification words it,
  \<^verbatim>\<open>round(100 * totalInNursery / (totalReceived + totalProduced), 2)\<close>, evaluated as the
  Python expression it is.
\<close>

definition spec_survival_rate :: "int \<Rightarrow> int \<Rightarrow> exn + number" where
  "spec_survival_rate totalInNursery totalInput =
     (case int_truediv (100 * totalInNursery) totalInput of
        Inl e \<Rightarrow> Inl e
      | Inr q \<Rightarrow> Inr (VFloat (float_round q 2)))"

section \<open>Example data\<close>

definition ex_oid :: "char \<Rightarrow> object_id" where
  "ex_oid c = Oid (''65a1b2c3d4e5f60718293a0'' @ [c])"

definition ex_received :: "string \<Rightarrow> datetime \<Rightarrow> int \<Rightarrow> SeedlingReceived" where
  "ex_received u t q =
     \<lparr>date = ''2024-03-01'', type = ''oak'', user_id = u, created_at = Some t, quantity = q,
      supplier = ''Grove'', price = 5 / 2, lot_number = ''L-7''\<rparr>"

definition ex_note :: "string \<Rightarrow> datetime \<Rightarrow> DeliveryNote" where
  "ex_note u t =
     \<lparr>date = ''2024-03-02'', type = ''oak'', user_id = u, created_at = Some t,
      expected_quantity = 12, actual_quantity = 10\<rparr>"

definition ex_counted :: "string \<Rightarrow> datetime \<Rightarrow> int \<Rightarrow> Counted" where
  "ex_counted u t q =
     \<lparr>date = ''2024-03-03'', type = ''oak'', user_id = u, created_at = Some t, quantity = q\<rparr>"

definition ex_produced :: "string \<Rightarrow> datetime \<Rightarrow> int \<Rightarrow> NurseryProduced" where
  "ex_produced u t q =
     \<lparr>date = ''2024-03-04'', type = ''oak'', user_id = u, created_at = Some t, quantity = q,
      parent_plant = ''P-1'', propagation_method = ''cutting''\<rparr>"

definition ex_distributed :: "string \<Rightarrow> datetime \<Rightarrow> int \<Rightarrow> DistributedSeedling" where
  "ex_distributed u t q =
     \<lparr>date = ''2024-03-05'', type = ''oak'', user_id = u, created_at = Some t, quantity = q,
      destination = ''school'', location = ''north''\<rparr>"

definition empty_db :: db where
  "empty_db = \<lparr>users = [], seedlings_received = [], delivery_notes = [], dead_seedlings = [],
               discarded_seedlings = [], nursery_produced = [], distributed_seedlings = []\<rparr>"

text \<open>Two users, each with records in every collection.\<close>

definition ex_db :: db where
  "ex_db =
     \<lparr>users = [],
      seedlings_received =
        [\<lparr>doc_id = ex_oid CHR ''1'', doc = ex_received ''alice'' 100 10\<rparr>,
         \<lparr>doc_id = ex_oid CHR ''2'', doc = ex_received ''bob'' 150 7\<rparr>,
         \<lparr>doc_id = ex_oid CHR ''3'', doc = ex_received ''alice'' 200 5\<rparr>],
      delivery_notes =
        [\<lparr>doc_id = ex_oid CHR ''1'', doc = ex_note ''alice'' 100\<rparr>,
         \<lparr>doc_id = ex_oid CHR ''2'', doc = ex_note ''bob'' 150\<rparr>,
         \<lparr>doc_id = ex_oid CHR ''3'', doc = ex_note ''alice'' 200\<rparr>],
      dead_seedlings =
        [\<lparr>doc_id = ex_oid CHR ''1'', doc = ex_counted ''alice'' 100 2\<rparr>,
         \<lparr>doc_id = ex_oid CHR ''2'', doc = ex_counted ''bob'' 150 4\<rparr>,
         \<lparr>doc_id = ex_oid CHR ''3'', doc = ex_counted ''alice'' 200 0\<rparr>],
      discarded_seedlings =
        [\<lparr>doc_id = ex_oid CHR ''1'', doc = ex_counted ''alice'' 100 1\<rparr>,
         \<lparr>doc_id = ex_oid CHR ''2'', doc = ex_counted ''bob'' 150 1\<rparr>,
         \<lparr>doc_id = ex_oid CHR ''3'', doc = ex_counted ''alice'' 200 0\<rparr>],
      nursery_produced =
        [\<lparr>doc_id = ex_oid CHR ''1'', doc = ex_produced ''alice'' 100 3\<rparr>,
         \<lparr>doc_id = ex_oid CHR ''2'', doc = ex_produced ''bob'' 150 2\<rparr>,
         \<lparr>doc_id = ex_oid CHR ''3'', doc = ex_produced ''alice'' 200 0\<rparr>],
      distributed_seedlings =
        [\<lparr>doc_id = ex_oid CHR ''1'', doc = ex_distributed ''alice'' 100 1\<rparr>,
         \<lparr>doc_id = ex_oid CHR ''2'', doc = ex_distributed ''bob'' 150 1\<rparr>,
         \<lparr>doc_id = ex_oid CHR ''3'', doc = ex_distributed ''alice'' 200 1\<rparr>]\<rparr>"

text \<open>A store in which one user has 1001 received-seedling records.\<close>

definition hex_digit_of :: "nat \<Rightarrow> char" where
  "hex_digit_of n = ''0123456789abcdef'' ! (n mod 16)"

definition nth_oid :: "nat \<Rightarrow> object_id" where
  "nth_oid n = Oid (map (\<lambda>k. hex_digit_of (n div 16 ^ (23 - k))) [0..<24])"

definition big_received :: "nat \<Rightarrow> (object_id, SeedlingReceived) document" where
  "big_received n = \<lparr>doc_id = nth_oid n, doc = ex_received ''alice'' (int n) 1\<rparr>"

definition big_db :: db where
  "big_db = empty_db\<lparr>seedlings_received := map big_received [0..<1001]\<rparr>"

text \<open>The dashboard example of the specification: Received 10 and 5, Produced 3, Dead 2,
  Discarded 1.\<close>

definition spec_example_db :: db where
  "spec_example_db =
     empty_db
       \<lparr>seedlings_received :=
          [\<lparr>doc_id = ex_oid CHR ''1'', doc = ex_received ''alice'' 100 10\<rparr>,
           \<lparr>doc_id = ex_oid CHR ''2'', doc = ex_received ''alice'' 200 5\<rparr>],
        dead_seedlings := [\<lparr>doc_id = ex_oid CHR ''1'', doc = ex_counted ''alice'' 300 2\<rparr>],
        discarded_seedlings := [\<lparr>doc_id = ex_oid CHR ''1'', doc = ex_counted ''alice'' 400 1\<rparr>],
        nursery_produced := [\<lparr>doc_id = ex_oid CHR ''1'', doc = ex_produced ''alice'' 500 3\<rparr>]\<rparr>"

text \<open>160 seedlings received, 137 of them dead.\<close>

definition tie_db :: db where
  "tie_db =
     empty_db
       \<lparr>seedlings_received := [\<lparr>doc_id = ex_oid CHR ''1'', doc = ex_received ''alice'' 100 160\<rparr>],
        dead_seedlings := [\<lparr>doc_id = ex_oid CHR ''1'', doc = ex_counted ''alice'' 300 137\<rparr>]\<rparr>"

text \<open>A single received record with a negative quantity, which no handler rejects.\<close>

definition negative_db :: db where
  "negative_db =
     empty_db
       \<lparr>seedlings_received := [\<lparr>doc_id = ex_oid CHR ''1'', doc = ex_received ''alice'' 100 (- 5)\<rparr>]\<rparr>"

text \<open>A registration, and the store after it.\<close>

definition ex_user :: UserRegister where
  "ex_user = \<lparr>username_of = ''carol'', password_of = ''correct horse''\<rparr>"

definition ex_user_again :: UserRegister where
  "ex_user_again = \<lparr>username_of = ''carol'', password_of = ''battery staple''\<rparr>"

definition ex_token :: Token where
  "ex_token =
     \<lparr>access_token = JWT ''HS256'' \<lparr>sub = Some ''carol'', exp = Some 1702592000\<rparr>
                       ''nursery_secret_key_change_in_production'',
      token_type = ''bearer'', token_username = ''carol''\<rparr>"

definition ex_registered_db :: db where
  "ex_registered_db =
     ex_db\<lparr>users :=
        [\<lparr>doc_id = ex_oid CHR ''7'',
          doc = \<lparr>user_name = ''carol'', user_password = Bcrypt ''salt'' ''correct horse'',
                 user_created_at = 1700000000\<rparr>\<rparr>]\<rparr>"

section \<open>Properties of the store\<close>

lemma delete_one_no_match: "\<not> list_ex flt ds \<Longrightarrow> delete_one ds flt = (0, ds)"
  by (induction ds) auto

lemma delete_one_count: "fst (delete_one ds flt) = (if list_ex flt ds then 1 else 0)"
  by (induction ds) (auto split: prod.splits)

lemma delete_one_subset: "set (snd (delete_one ds flt)) \<subseteq> set ds"
  by (induction ds) (auto split: prod.splits)

lemma delete_one_keeps: "d \<in> set ds \<Longrightarrow> \<not> flt d \<Longrightarrow> d \<in> set (snd (delete_one ds flt))"
  by (induction ds) (auto split: prod.splits)

lemma created_ge_total: "created_ge a b \<or> created_ge b a"
  by (cases a; cases b) auto

lemma created_ge_trans: "created_ge a b \<Longrightarrow> created_ge b c \<Longrightarrow> created_ge a c"
  by (cases a; cases b; cases c) auto

lemma set_insert_desc: "set (insert_desc x ys) = insert x (set ys)"
  by (induction ys) auto

lemma length_insert_desc: "length (insert_desc x ys) = Suc (length ys)"
  by (induction ys) auto

lemma newest_first_insert_desc: "newest_first ys \<Longrightarrow> newest_first (insert_desc x ys)"
  unfolding newest_first_def
proof (induction ys)
  case Nil
  then show ?case by simp
next
  case (Cons y ys)
  show ?case
  proof (cases "created_ge (created_at (doc x)) (created_at (doc y))")
    case True
    with Cons.prems show ?thesis
      by (auto intro: created_ge_trans)
  next
    case False
    then have "created_ge (created_at (doc y)) (created_at (doc x))"
      using created_ge_total by blast
    with False Cons show ?thesis
      by (auto simp: set_insert_desc)
  qed
qed

lemma set_sort_created_desc: "set (sort_created_desc xs) = set xs"
  by (induction xs) (auto simp: sort_created_desc_def set_insert_desc)

lemma length_sort_created_desc: "length (sort_created_desc xs) = length xs"
  by (induction xs) (auto simp: sort_created_desc_def length_insert_desc)

lemma newest_first_sort: "newest_first (sort_created_desc xs)"
proof (induction xs)
  case Nil
  show ?case by (simp add: sort_created_desc_def newest_first_def)
next
  case (Cons x xs)
  then show ?case
    using newest_first_insert_desc [of "sort_created_desc xs" x]
    by (simp add: sort_created_desc_def)
qed

lemma newest_first_take: "newest_first xs \<Longrightarrow> newest_first (take n xs)"
  unfolding newest_first_def by (rule sorted_wrt_take)

lemma newest_first_str_id: "newest_first xs \<Longrightarrow> newest_first (map str_id xs)"
  unfolding newest_first_def by (simp add: sorted_wrt_map str_id_def)

lemma listing_length:
  "length (map str_id (find_sorted_to_list coll (by_user u) 1000))
     = min 1000 (length (filter (by_user u) coll))"
  by (simp add: find_sorted_to_list_def length_sort_created_desc min.commute)

lemma listing_newest_first:
  "newest_first (map str_id (find_sorted_to_list coll (by_user u) 1000))"
  by (simp add: find_sorted_to_list_def newest_first_str_id newest_first_take newest_first_sort)

lemma listing_owned:
  "r \<in> set (map str_id (find_sorted_to_list coll (by_user u) 1000)) \<Longrightarrow> user_id (doc r) = u"
  by (auto simp: find_sorted_to_list_def set_sort_created_desc by_user_def str_id_def
           dest!: in_set_takeD)

lemma delete_other_owner:
  assumes "d \<in> set coll" and "user_id (doc d) = b" and "a \<noteq> b"
    and "distinct (map doc_id coll)"
  shows "delete_one coll (by_id_user (doc_id d) a) = (0, coll)"
proof -
  have "\<not> list_ex (by_id_user (doc_id d) a) coll"
  proof
    assume "list_ex (by_id_user (doc_id d) a) coll"
    then obtain x where x: "x \<in> set coll" "doc_id x = doc_id d" "user_id (doc x) = a"
      by (auto simp: list_ex_iff by_id_user_def)
    from assms(4) have "inj_on doc_id (set coll)"
      by (simp add: distinct_map)
    with x(1,2) assms(1) have "x = d"
      by (auto dest: inj_onD)
    with x(3) assms(2,3) show False by simp
  qed
  then show ?thesis by (rule delete_one_no_match)
qed

lemma listing_not_other:
  "a \<noteq> b \<Longrightarrow>
     \<forall>r\<in>set (map str_id (find_sorted_to_list coll (by_user a) 1000)). user_id (doc r) \<noteq> b"
  using listing_owned by fastforce

lemma big_db_owner_count:
  "length (filter (by_user ''alice'') (seedlings_received big_db)) = 1001"
  by (simp add: big_db_def filter_map o_def by_user_def big_received_def ex_received_def)

lemma find_one_None_iff: "find_one coll flt = None \<longleftrightarrow> filter flt coll = []"
  by (simp add: find_one_def split: list.splits)

lemma register_eq:
  "register db now salt new_id user =
     (if filter (by_username (username_of user)) (users db) \<noteq> []
      then (Inl (HTTPException 400 ''Username already exists''), db)
      else if CHR 0x00 \<in> set (password_of user) then (Inl (Unhandled PasswordValueError), db)
      else if new_id \<in> set (map doc_id (users db)) then (Inl (Unhandled DuplicateKeyError), db)
      else (Inr \<lparr>access_token = create_access_token now \<lparr>sub = Some (username_of user), exp = None\<rparr>,
                 token_type = ''bearer'', token_username = username_of user\<rparr>,
            db\<lparr>users := users db @
               [\<lparr>doc_id = new_id,
                 doc = \<lparr>user_name = username_of user,
                        user_password = Bcrypt salt (take 72 (password_of user)),
                        user_created_at = now\<rparr>\<rparr>]\<rparr>))"
  by (simp add: register_def find_one_def get_password_hash_def insert_one_def Let_def
           split: list.splits)

lemma get_current_user_fresh:
  "now' < now + 30 * 86400 \<Longrightarrow>
     get_current_user now' (create_access_token now \<lparr>sub = Some u, exp = None\<rparr>) = Inr u"
  by (simp add: get_current_user_def create_access_token_def jwt_encode_def Let_def)

section \<open>Register, login, verify\<close>



section \<open>Registering a username twice\<close>

text \<open>
  Claim C6. After a successful \<open>register\<close>, a second \<open>register\<close> with the same username
  (and any password) fails with status 400 ``Username already exists'' and returns the
  store unchanged; the store holds one credential record for the username.
\<close>

theorem register_twice:
  assumes "register db t salt i user = (Inr tok, db')"
    and "username_of user' = username_of user"
  shows "register db' t' salt' i' user' = (Inl (HTTPException 400 ''Username already exists''), db') \<and>
         response_status (fst (register db' t' salt' i' user')) = 400 \<and>
         length (filter (by_username (username_of user)) (users db')) = 1"
proof -
  from assms(1) have none: "filter (by_username (username_of user)) (users db) = []"
    and db': "db' = db\<lparr>users := users db @
               [\<lparr>doc_id = i,
                 doc = \<lparr>user_name = username_of user,
                        user_password = Bcrypt salt (take 72 (password_of user)),
                        user_created_at = t\<rparr>\<rparr>]\<rparr>"
    by (auto simp: register_eq split: if_splits)
  from none db' have one: "filter (by_username (username_of user)) (users db')
      = [\<lparr>doc_id = i,
                 doc = \<lparr>user_name = username_of user,
                        user_password = Bcrypt salt (take 72 (password_of user)),
                        user_created_at = t\<rparr>\<rparr>]"
    by (simp add: by_username_def)
  with assms(2) show ?thesis
    by (simp add: register_eq)
qed

theorem register_twice_witness:
  "register ex_db 1700000000 ''salt'' (ex_oid CHR ''7'') ex_user = (Inr ex_token, ex_registered_db) \<and>
   username_of ex_user_again = username_of ex_user \<and>
   register ex_registered_db 1700000050 ''pepper'' (ex_oid CHR ''8'') ex_user_again
     = (Inl (HTTPException 400 ''Username already exists''), ex_registered_db) \<and>
   response_status
     (fst (register ex_registered_db 1700000050 ''pepper'' (ex_oid CHR ''8'') ex_user_again)) = 400 \<and>
   length (filter (by_username ''carol'') (users ex_registered_db)) = 1"
  using register_twice [where db = ex_db and t = 1700000000 and salt = "''salt''"
      and i = "ex_oid CHR ''7''" and user = ex_user and tok = ex_token
      and db' = ex_registered_db and user' = ex_user_again and t' = 1700000050
      and salt' = "''pepper''" and i' = "ex_oid CHR ''8''"]
  by (simp add: register_eq ex_user_def ex_user_again_def ex_db_def ex_registered_db_def
        ex_token_def create_access_token_def jwt_encode_def SECRET_KEY_def ALGORITHM_def
        Let_def)

section \<open>Owner scoping of list and delete\<close>

text \<open>
  Claim C2. For owners \<open>a \<noteq> b\<close>, in a store whose identifiers are unique within each
  collection: the listing that \<open>a\<close> requests contains no record owned by \<open>b\<close>, and a
  delete that \<open>a\<close> requests with the identifier of a record owned by \<open>b\<close> is answered
  with 404 ``Item not found'' and leaves the store as it was. This holds for each of the
  six resources.
\<close>

theorem owner_isolation:
  assumes "a \<noteq> b" and "unique_ids db"
  shows
   "(\<forall>r\<in>set (get_seedlings_received db a). user_id (doc r) \<noteq> b) \<and>
    (dr \<in> set (seedlings_received db) \<and> user_id (doc dr) = b \<and> ObjectId sr = Inr (doc_id dr)
       \<longrightarrow> delete_seedling_received db sr a = (Inl (HTTPException 404 ''Item not found''), db)) \<and>
    (\<forall>r\<in>set (get_delivery_notes db a). user_id (doc r) \<noteq> b) \<and>
    (dn \<in> set (delivery_notes db) \<and> user_id (doc dn) = b \<and> ObjectId sn = Inr (doc_id dn)
       \<longrightarrow> delete_delivery_note db sn a = (Inl (HTTPException 404 ''Item not found''), db)) \<and>
    (\<forall>r\<in>set (get_dead_seedlings db a). user_id (doc r) \<noteq> b) \<and>
    (dd \<in> set (dead_seedlings db) \<and> user_id (doc dd) = b \<and> ObjectId sd = Inr (doc_id dd)
       \<longrightarrow> delete_dead_seedling db sd a = (Inl (HTTPException 404 ''Item not found''), db)) \<and>
    (\<forall>r\<in>set (get_discarded_seedlings db a). user_id (doc r) \<noteq> b) \<and>
    (dx \<in> set (discarded_seedlings db) \<and> user_id (doc dx) = b \<and> ObjectId sx = Inr (doc_id dx)
       \<longrightarrow> delete_discarded_seedling db sx a = (Inl (HTTPException 404 ''Item not found''), db)) \<and>
    (\<forall>r\<in>set (get_nursery_produced db a). user_id (doc r) \<noteq> b) \<and>
    (dp \<in> set (nursery_produced db) \<and> user_id (doc dp) = b \<and> ObjectId sp = Inr (doc_id dp)
       \<longrightarrow> delete_nursery_produced db sp a = (Inl (HTTPException 404 ''Item not found''), db)) \<and>
    (\<forall>r\<in>set (get_distributed_seedlings db a). user_id (doc r) \<noteq> b) \<and>
    (dt \<in> set (distributed_seedlings db) \<and> user_id (doc dt) = b \<and> ObjectId st = Inr (doc_id dt)
       \<longrightarrow> delete_distributed_seedling db st a = (Inl (HTTPException 404 ''Item not found''), db))"
proof -
  note l = listing_not_other [OF assms(1)]
  note d = delete_other_owner [OF _ _ assms(1)]
  from assms(2) have u:
    "distinct (map doc_id (seedlings_received db))" "distinct (map doc_id (delivery_notes db))"
    "distinct (map doc_id (dead_seedlings db))" "distinct (map doc_id (discarded_seedlings db))"
    "distinct (map doc_id (nursery_produced db))" "distinct (map doc_id (distributed_seedlings db))"
    by (simp_all add: unique_ids_def)
  have l1: "(\<forall>r\<in>set (get_seedlings_received db a). user_id (doc r) \<noteq> b)"
    unfolding get_seedlings_received_def by (rule l)
  have d1: "(dr \<in> set (seedlings_received db) \<and> user_id (doc dr) = b \<and> ObjectId sr = Inr (doc_id dr)
       \<longrightarrow> delete_seedling_received db sr a = (Inl (HTTPException 404 ''Item not found''), db))"
    using d [OF _ _ u(1)] by (simp add: delete_seedling_received_def)
  have l2: "(\<forall>r\<in>set (get_delivery_notes db a). user_id (doc r) \<noteq> b)"
    unfolding get_delivery_notes_def by (rule l)
  have d2: "(dn \<in> set (delivery_notes db) \<and> user_id (doc dn) = b \<and> ObjectId sn = Inr (doc_id dn)
       \<longrightarrow> delete_delivery_note db sn a = (Inl (HTTPException 404 ''Item not found''), db))"
    using d [OF _ _ u(2)] by (simp add: delete_delivery_note_def)
  have l3: "(\<forall>r\<in>set (get_dead_seedlings db a). user_id (doc r) \<noteq> b)"
    unfolding get_dead_seedlings_def by (rule l)
  have d3: "(dd \<in> set (dead_seedlings db) \<and> user_id (doc dd) = b \<and> ObjectId sd = Inr (doc_id dd)
       \<longrightarrow> delete_dead_seedling db sd a = (Inl (HTTPException 404 ''Item not found''), db))"
    using d [OF _ _ u(3)] by (simp add: delete_dead_seedling_def)
  have l4: "(\<forall>r\<in>set (get_discarded_seedlings db a). user_id (doc r) \<noteq> b)"
    unfolding get_discarded_seedlings_def by (rule l)
  have d4: "(dx \<in> set (discarded_seedlings db) \<and> user_id (doc dx) = b \<and> ObjectId sx = Inr (doc_id dx)
       \<longrightarrow> delete_discarded_seedling db sx a = (Inl (HTTPException 404 ''Item not found''), db))"
    using d [OF _ _ u(4)] by (simp add: delete_discarded_seedling_def)
  have l5: "(\<forall>r\<in>set (get_nursery_produced db a). user_id (doc r) \<noteq> b)"
    unfolding get_nursery_produced_def by (rule l)
  have d5: "(dp \<in> set (nursery_produced db) \<and> user_id (doc dp) = b \<and> ObjectId sp = Inr (doc_id dp)
       \<longrightarrow> delete_nursery_produced db sp a = (Inl (HTTPException 404 ''Item not found''), db))"
    using d [OF _ _ u(5)] by (simp add: delete_nursery_produced_def)
  have l6: "(\<forall>r\<in>set (get_distributed_seedlings db a). user_id (doc r) \<noteq> b)"
    unfolding get_distributed_seedlings_def by (rule l)
  have d6: "(dt \<in> set (distributed_seedlings db) \<and> user_id (doc dt) = b \<and> ObjectId st = Inr (doc_id dt)
       \<longrightarrow> delete_distributed_seedling db st a = (Inl (HTTPException 404 ''Item not found''), db))"
    using d [OF _ _ u(6)] by (simp add: delete_distributed_seedling_def)
  from l1 d1 l2 d2 l3 d3 l4 d4 l5 d5 l6 d6 show ?thesis by blast
qed

theorem owner_isolation_witness:
  "''alice'' \<noteq> ''bob'' \<and>
   unique_ids ex_db \<and>
   \<lparr>doc_id = ex_oid CHR ''2'', doc = ex_received ''bob'' 150 7\<rparr> \<in> set (seedlings_received ex_db) \<and>
   delete_seedling_received ex_db ''65A1B2C3D4E5F60718293A02'' ''alice'' =
     (Inl (HTTPException 404 ''Item not found''), ex_db) \<and>
   map (\<lambda>r. user_id (doc r)) (get_seedlings_received ex_db ''alice'') = [''alice'', ''alice''] \<and>
   \<lparr>doc_id = ex_oid CHR ''2'', doc = ex_note ''bob'' 150\<rparr> \<in> set (delivery_notes ex_db) \<and>
   delete_delivery_note ex_db ''65A1B2C3D4E5F60718293A02'' ''alice'' =
     (Inl (HTTPException 404 ''Item not found''), ex_db) \<and>
   map (\<lambda>r. user_id (doc r)) (get_delivery_notes ex_db ''alice'') = [''alice'', ''alice''] \<and>
   \<lparr>doc_id = ex_oid CHR ''2'', doc = ex_counted ''bob'' 150 4\<rparr> \<in> set (dead_seedlings ex_db) \<and>
   delete_dead_seedling ex_db ''65A1B2C3D4E5F60718293A02'' ''alice'' =
     (Inl (HTTPException 404 ''Item not found''), ex_db) \<and>
   map (\<lambda>r. user_id (doc r)) (get_dead_seedlings ex_db ''alice'') = [''alice'', ''alice''] \<and>
   \<lparr>doc_id = ex_oid CHR ''2'', doc = ex_counted ''bob'' 150 1\<rparr> \<in> set (discarded_seedlings ex_db) \<and>
   delete_discarded_seedling ex_db ''65A1B2C3D4E5F60718293A02'' ''alice'' =
     (Inl (HTTPException 404 ''Item not found''), ex_db) \<and>
   map (\<lambda>r. user_id (doc r)) (get_discarded_seedlings ex_db ''alice'') = [''alice'', ''alice''] \<and>
   \<lparr>doc_id = ex_oid CHR ''2'', doc = ex_produced ''bob'' 150 2\<rparr> \<in> set (nursery_produced ex_db) \<and>
   delete_nursery_produced ex_db ''65A1B2C3D4E5F60718293A02'' ''alice'' =
     (Inl (HTTPException 404 ''Item not found''), ex_db) \<and>
   map (\<lambda>r. user_id (doc r)) (get_nursery_produced ex_db ''alice'') = [''alice'', ''alice''] \<and>
   \<lparr>doc_id = ex_oid CHR ''2'', doc = ex_distributed ''bob'' 150 1\<rparr> \<in> set (distributed_seedlings ex_db) \<and>
   delete_distributed_seedling ex_db ''65A1B2C3D4E5F60718293A02'' ''alice'' =
     (Inl (HTTPException 404 ''Item not found''), ex_db) \<and>
   map (\<lambda>r. user_id (doc r)) (get_distributed_seedlings ex_db ''alice'') = [''alice'', ''alice'']"
  using owner_isolation [where a = "''alice''"
      and b = "''bob''"
      and db = ex_db
      and dr = "\<lparr>doc_id = ex_oid CHR ''2'', doc = ex_received ''bob'' 150 7\<rparr>"
      and sr = "''65A1B2C3D4E5F60718293A02''"
      and dn = "\<lparr>doc_id = ex_oid CHR ''2'', doc = ex_note ''bob'' 150\<rparr>"
      and sn = "''65A1B2C3D4E5F60718293A02''"
      and dd = "\<lparr>doc_id = ex_oid CHR ''2'', doc = ex_counted ''bob'' 150 4\<rparr>"
      and sd = "''65A1B2C3D4E5F60718293A02''"
      and dx = "\<lparr>doc_id = ex_oid CHR ''2'', doc = ex_counted ''bob'' 150 1\<rparr>"
      and sx = "''65A1B2C3D4E5F60718293A02''"
      and dp = "\<lparr>doc_id = ex_oid CHR ''2'', doc = ex_produced ''bob'' 150 2\<rparr>"
      and sp = "''65A1B2C3D4E5F60718293A02''"
      and dt = "\<lparr>doc_id = ex_oid CHR ''2'', doc = ex_distributed ''bob'' 150 1\<rparr>"
      and st = "''65A1B2C3D4E5F60718293A02''"]
  by (simp add: ex_db_def unique_ids_def ex_oid_def ObjectId_def hexdigit_def lower_hex_def
        get_seedlings_received_def get_delivery_notes_def get_dead_seedlings_def
        get_discarded_seedlings_def get_nursery_produced_def get_distributed_seedlings_def
        find_sorted_to_list_def sort_created_desc_def by_user_def str_id_def
        ex_received_def ex_note_def ex_counted_def ex_produced_def ex_distributed_def)

section \<open>Create stamps the caller as owner\<close>

lemma create_seedling_received_eq:
  "create_seedling_received db i p u =
     (if i \<in> set (map doc_id (seedlings_received db)) then (Inl (Unhandled DuplicateKeyError), db)
      else (Inr \<lparr>doc_id = str_oid i, doc = p\<lparr>user_id := u\<rparr>\<rparr>,
            db\<lparr>seedlings_received := seedlings_received db @ [\<lparr>doc_id = i, doc = p\<lparr>user_id := u\<rparr>\<rparr>]\<rparr>))"
  by (simp add: create_seedling_received_def insert_one_def Let_def)

lemma create_delivery_note_eq:
  "create_delivery_note db i p u =
     (if i \<in> set (map doc_id (delivery_notes db)) then (Inl (Unhandled DuplicateKeyError), db)
      else (Inr \<lparr>doc_id = str_oid i, doc = p\<lparr>user_id := u\<rparr>\<rparr>,
            db\<lparr>delivery_notes := delivery_notes db @ [\<lparr>doc_id = i, doc = p\<lparr>user_id := u\<rparr>\<rparr>]\<rparr>))"
  by (simp add: create_delivery_note_def insert_one_def Let_def)

lemma create_dead_seedling_eq:
  "create_dead_seedling db i p u =
     (if i \<in> set (map doc_id (dead_seedlings db)) then (Inl (Unhandled DuplicateKeyError), db)
      else (Inr \<lparr>doc_id = str_oid i, doc = p\<lparr>user_id := u\<rparr>\<rparr>,
            db\<lparr>dead_seedlings := dead_seedlings db @ [\<lparr>doc_id = i, doc = p\<lparr>user_id := u\<rparr>\<rparr>]\<rparr>))"
  by (simp add: create_dead_seedling_def insert_one_def Let_def)

lemma create_discarded_seedling_eq:
  "create_discarded_seedling db i p u =
     (if i \<in> set (map doc_id (discarded_seedlings db)) then (Inl (Unhandled DuplicateKeyError), db)
      else (Inr \<lparr>doc_id = str_oid i, doc = p\<lparr>user_id := u\<rparr>\<rparr>,
            db\<lparr>discarded_seedlings := discarded_seedlings db @ [\<lparr>doc_id = i, doc = p\<lparr>user_id := u\<rparr>\<rparr>]\<rparr>))"
  by (simp add: create_discarded_seedling_def insert_one_def Let_def)

lemma create_nursery_produced_eq:
  "create_nursery_produced db i p u =
     (if i \<in> set (map doc_id (nursery_produced db)) then (Inl (Unhandled DuplicateKeyError), db)
      else (Inr \<lparr>doc_id = str_oid i, doc = p\<lparr>user_id := u\<rparr>\<rparr>,
            db\<lparr>nursery_produced := nursery_produced db @ [\<lparr>doc_id = i, doc = p\<lparr>user_id := u\<rparr>\<rparr>]\<rparr>))"
  by (simp add: create_nursery_produced_def insert_one_def Let_def)

lemma create_distributed_seedling_eq:
  "create_distributed_seedling db i p u =
     (if i \<in> set (map doc_id (distributed_seedlings db)) then (Inl (Unhandled DuplicateKeyError), db)
      else (Inr \<lparr>doc_id = str_oid i, doc = p\<lparr>user_id := u\<rparr>\<rparr>,
            db\<lparr>distributed_seedlings := distributed_seedlings db @ [\<lparr>doc_id = i, doc = p\<lparr>user_id := u\<rparr>\<rparr>]\<rparr>))"
  by (simp add: create_distributed_seedling_def insert_one_def Let_def)



section \<open>Listing: the cap and the order\<close>

text \<open>
  Claim C7. For every owner and each of the six resources, the listing has
  \<open>min 1000 n\<close> records, where \<open>n\<close> is the number of records the owner has in the
  collection, hence never more than 1000; and it is ordered newest-created-first: no
  record is followed by one with a later creation timestamp.
\<close>

theorem list_capped_newest_first:
  "length (get_seedlings_received db u)
     = min 1000 (length (filter (by_user u) (seedlings_received db))) \<and>
   newest_first (get_seedlings_received db u) \<and>
   length (get_delivery_notes db u)
     = min 1000 (length (filter (by_user u) (delivery_notes db))) \<and>
   newest_first (get_delivery_notes db u) \<and>
   length (get_dead_seedlings db u)
     = min 1000 (length (filter (by_user u) (dead_seedlings db))) \<and>
   newest_first (get_dead_seedlings db u) \<and>
   length (get_discarded_seedlings db u)
     = min 1000 (length (filter (by_user u) (discarded_seedlings db))) \<and>
   newest_first (get_discarded_seedlings db u) \<and>
   length (get_nursery_produced db u)
     = min 1000 (length (filter (by_user u) (nursery_produced db))) \<and>
   newest_first (get_nursery_produced db u) \<and>
   length (get_distributed_seedlings db u)
     = min 1000 (length (filter (by_user u) (distributed_seedlings db))) \<and>
   newest_first (get_distributed_seedlings db u)"
  unfolding get_seedlings_received_def get_delivery_notes_def get_dead_seedlings_def
    get_discarded_seedlings_def get_nursery_produced_def get_distributed_seedlings_def
  by (intro conjI listing_length listing_newest_first)

text \<open>An owner with 1001 records is shown 1000 of them, newest first.\<close>

theorem list_capped_newest_first_witness:
  "length (filter (by_user ''alice'') (seedlings_received big_db)) = 1001 \<and>
   length (get_seedlings_received big_db ''alice'') = 1000 \<and>
   newest_first (get_seedlings_received big_db ''alice'')"
  using list_capped_newest_first [of big_db "''alice''"]
  by (simp add: big_db_owner_count)

section \<open>Delete with a malformed identifier\<close>

text \<open>
  Claim C10. When the \<open>id\<close> of the path is a string that is not 24 characters long,
  \<^verbatim>\<open>ObjectId(id)\<close> raises \<^verbatim>\<open>InvalidId\<close> before the store is queried; nothing in the
  handler catches it, so the request is answered with status 500 and not with the 404
  ``Item not found'' of a missing record, and the store is untouched. This holds for the
  delete handler of each of the six resources.
\<close>

theorem delete_malformed_id_unhandled:
  "length s \<noteq> 24 \<Longrightarrow>
     ObjectId s = Inl InvalidId \<and>
     delete_seedling_received db s u = (Inl (Unhandled InvalidId), db) \<and>
     delete_delivery_note db s u = (Inl (Unhandled InvalidId), db) \<and>
     delete_dead_seedling db s u = (Inl (Unhandled InvalidId), db) \<and>
     delete_discarded_seedling db s u = (Inl (Unhandled InvalidId), db) \<and>
     delete_nursery_produced db s u = (Inl (Unhandled InvalidId), db) \<and>
     delete_distributed_seedling db s u = (Inl (Unhandled InvalidId), db) \<and>
     response_status (fst (delete_seedling_received db s u)) = 500 \<and>
     fst (delete_seedling_received db s u) \<noteq> Inl (HTTPException 404 ''Item not found'')"
  by (simp add: ObjectId_def delete_seedling_received_def delete_delivery_note_def
        delete_dead_seedling_def delete_discarded_seedling_def delete_nursery_produced_def
        delete_distributed_seedling_def)

theorem delete_malformed_id_unhandled_witness:
  "length ''abc'' \<noteq> 24 \<and>
   ObjectId ''abc'' = Inl InvalidId \<and>
   delete_seedling_received ex_db ''abc'' ''alice'' = (Inl (Unhandled InvalidId), ex_db) \<and>
   response_status (fst (delete_seedling_received ex_db ''abc'' ''alice'')) = 500"
  using delete_malformed_id_unhandled [of "''abc''" ex_db "''alice''"]
  by simp

section \<open>Properties of the dashboard computation\<close>

lemma to_float_finite: "\<bar>x\<bar> < overflow_threshold \<Longrightarrow> to_float x = Fin (rnd53 x)"
  unfolding to_float_def by (auto simp: abs_less_iff)

lemma int_truediv_defined:
  "b \<noteq> 0 \<Longrightarrow> \<bar>of_int a / of_int b\<bar> < overflow_threshold \<Longrightarrow>
     int_truediv a b = Inr (Fin (rnd53 (of_int a / of_int b)))"
  unfolding int_truediv_def by (simp only: to_float_finite) simp

lemma int_truediv_nonzero: "b \<noteq> 0 \<Longrightarrow> int_truediv a b \<noteq> Inl ZeroDivisionError"
  by (simp add: int_truediv_def split: float.splits)

lemma quotient_small:
  fixes a b :: int
  assumes "0 < b" and "\<bar>a\<bar> < 2 ^ 1023"
  shows "\<bar>(of_int a :: rat) / of_int b\<bar> < overflow_threshold"
proof -
  from assms(1) have b1: "(1::rat) \<le> of_int b" by simp
  have "\<bar>(of_int a :: rat) / of_int b\<bar> = \<bar>of_int a\<bar> / of_int b"
    using assms(1) by simp
  also have "\<dots> \<le> \<bar>of_int a\<bar> / 1"
    using b1 by (intro divide_left_mono) auto
  also have "\<dots> = of_int \<bar>a\<bar>" by simp
  also from assms(2) have "\<dots> < of_int (2 ^ 1023)"
    by (simp only: of_int_less_iff)
  also have "\<dots> \<le> overflow_threshold"
    by (simp add: overflow_threshold_def)
  finally show ?thesis .
qed

lemma get_dashboard_stats_eq:
  "get_dashboard_stats db u =
     (let r = owner_total (seedlings_received db) u;
          d = owner_total (dead_seedlings db) u;
          x = owner_total (discarded_seedlings db) u;
          p = owner_total (nursery_produced db) u
      in if 0 < r + p
         then (case int_truediv (r + p - d - x) (r + p) of
                 Inl e \<Rightarrow> Inl (Unhandled e)
               | Inr q \<Rightarrow>
                   Inr [(''total_received'', VInt r), (''total_dead'', VInt d),
                        (''total_discarded'', VInt x), (''total_produced'', VInt p),
                        (''survival_rate'', VFloat (float_round (float_mul q (Fin 100)) 2)),
                        (''total_in_nursery'', VInt (r + p - d - x))])
         else Inr [(''total_received'', VInt r), (''total_dead'', VInt d),
                   (''total_discarded'', VInt x), (''total_produced'', VInt p),
                   (''survival_rate'', VInt 0),
                   (''total_in_nursery'', VInt (r + p - d - x))])"
  by (simp add: get_dashboard_stats_def owner_total_def Let_def split: sum.splits)

lemma get_dashboard_stats_keys:
  "get_dashboard_stats db u = Inr content \<Longrightarrow>
     map fst content = [''total_received'', ''total_dead'', ''total_discarded'',
                        ''total_produced'', ''survival_rate'', ''total_in_nursery'']"
  by (auto simp: get_dashboard_stats_eq Let_def split: if_splits sum.splits)

lemma no_total_distributed:
  "get_dashboard_stats db u = Inr content \<Longrightarrow> map_of content ''total_distributed'' = None"
proof -
  assume "get_dashboard_stats db u = Inr content"
  then have "''total_distributed'' \<notin> set (map fst content)"
    by (simp add: get_dashboard_stats_keys)
  then show ?thesis
    by (simp add: map_of_eq_None_iff)
qed

lemma validate_needs_total_distributed:
  "map_of content ''total_distributed'' = None \<Longrightarrow>
     validate_DashboardStats content = Inl ResponseValidationError"
  by (simp add: validate_DashboardStats_def int_field_def split: sum.splits)

lemma to_float_small: "\<bar>x\<bar> < 2 ^ 64 \<Longrightarrow> to_float x = Fin (rnd53 x)"
proof -
  assume "\<bar>x\<bar> < 2 ^ 64"
  moreover have "(2::rat) ^ 64 \<le> overflow_threshold"
    by (simp add: overflow_threshold_def)
  ultimately show ?thesis
    by (intro to_float_finite) simp
qed

lemma decimal_small: "\<bar>of_int m / 10 ^ n :: rat\<bar> < 2 ^ 64 \<Longrightarrow> decimal m n = Fin (rnd53 (of_int m / 10 ^ n))"
  unfolding decimal_def by (rule to_float_small)

lemma rate_eval:
  assumes "\<bar>rnd53 x * 100\<bar> < 2 ^ 64"
    and "float_round (Fin (rnd53 (rnd53 x * 100))) 2 = Fin (rnd53 (of_int m / 10 ^ 2))"
    and "\<bar>of_int m / 10 ^ 2 :: rat\<bar> < 2 ^ 64"
  shows "float_round (to_float (rnd53 x * 100)) 2 = decimal m 2"
  using assms by (simp only: to_float_small decimal_small)

lemma example_rate: "float_round (to_float (rnd53 (5 / 6) * 100)) 2 = decimal 8333 2"
proof (rule rate_eval)
  show "\<bar>rnd53 (5 / 6) * 100\<bar> < 2 ^ 64" by code_simp
  show "float_round (Fin (rnd53 (rnd53 (5 / 6) * 100))) 2 = Fin (rnd53 (of_int 8333 / 10 ^ 2))"
    by code_simp
  show "\<bar>of_int 8333 / 10 ^ 2 :: rat\<bar> < 2 ^ 64" by simp
qed

lemma bob_rate: "float_round (to_float (rnd53 (4 / 9) * 100)) 2 = decimal 4444 2"
proof (rule rate_eval)
  show "\<bar>rnd53 (4 / 9) * 100\<bar> < 2 ^ 64" by code_simp
  show "float_round (Fin (rnd53 (rnd53 (4 / 9) * 100))) 2 = Fin (rnd53 (of_int 4444 / 10 ^ 2))"
    by code_simp
  show "\<bar>of_int 4444 / 10 ^ 2 :: rat\<bar> < 2 ^ 64" by simp
qed

lemma tie_rate: "float_round (to_float (rnd53 (23 / 160) * 100)) 2 = decimal 1437 2"
proof (rule rate_eval)
  show "\<bar>rnd53 (23 / 160) * 100\<bar> < 2 ^ 64" by code_simp
  show "float_round (Fin (rnd53 (rnd53 (23 / 160) * 100))) 2 = Fin (rnd53 (of_int 1437 / 10 ^ 2))"
    by code_simp
  show "\<bar>of_int 1437 / 10 ^ 2 :: rat\<bar> < 2 ^ 64" by simp
qed

lemma spec_tie_rate: "spec_survival_rate 23 160 = Inr (VFloat (decimal 1438 2))"
proof -
  have "int_truediv (100 * 23) 160 = Inr (Fin (rnd53 (of_int (100 * 23) / of_int 160)))"
    by (intro int_truediv_defined quotient_small) simp_all
  moreover have "float_round (Fin (rnd53 (of_int (100 * 23) / of_int 160))) 2
      = Fin (rnd53 (of_int 1438 / 10 ^ 2))"
    by code_simp
  moreover have "decimal 1438 2 = Fin (rnd53 (of_int 1438 / 10 ^ 2))"
    by (rule decimal_small) simp
  ultimately show ?thesis
    by (simp only: spec_survival_rate_def sum.case)
qed

lemma decimals_differ: "decimal 1437 2 \<noteq> decimal 1438 2"
proof -
  have "decimal 1437 2 = Fin (rnd53 (of_int 1437 / 10 ^ 2))"
    by (rule decimal_small) simp
  moreover have "decimal 1438 2 = Fin (rnd53 (of_int 1438 / 10 ^ 2))"
    by (rule decimal_small) simp
  moreover have "rnd53 (of_int 1437 / 10 ^ 2) \<noteq> rnd53 (of_int 1438 / 10 ^ 2)"
    by code_simp
  ultimately show ?thesis by simp
qed

section \<open>The dashboard route against its response model\<close>

text \<open>
  Claim C1, which says that the route returns a value with every field of
  \<open>DashboardStats\<close>. The dictionary that the handler builds has no key
  \<^verbatim>\<open>total_distributed\<close>, a required field of the response model of the route. So the
  validation of the answer fails for every store and every user: the route never returns
  a \<open>DashboardStats\<close> value, and for a user without records it answers with status 500.
\<close>

theorem dashboard_route_always_fails:
  "(\<forall>stats. dashboard_stats_route db u \<noteq> Inr stats) \<and>
   dashboard_stats_route empty_db ''alice'' = Inl (Unhandled ResponseValidationError) \<and>
   response_status (dashboard_stats_route empty_db ''alice'') = 500"
proof -
  have a: "dashboard_stats_route d v \<noteq> Inr stats" for d v stats
    by (auto simp: dashboard_stats_route_def validate_needs_total_distributed
          no_total_distributed split: sum.splits)
  have "get_dashboard_stats empty_db ''alice''
      = Inr [(''total_received'', VInt 0), (''total_dead'', VInt 0),
             (''total_discarded'', VInt 0), (''total_produced'', VInt 0),
             (''survival_rate'', VInt 0), (''total_in_nursery'', VInt 0)]"
    by (simp add: get_dashboard_stats_eq owner_total_def find_to_list_def empty_db_def)
  then have b: "dashboard_stats_route empty_db ''alice'' = Inl (Unhandled ResponseValidationError)"
    by (simp add: dashboard_stats_route_def validate_needs_total_distributed)
  from a b show ?thesis by simp
qed

section \<open>Dashboard of an owner without records\<close>

text \<open>
  Claim C4. For an owner with no Received, Dead, Discarded or Produced records the
  handler returns 0 for every total and 0 for the survival rate; and for no store and no
  user does the handler raise \<^verbatim>\<open>ZeroDivisionError\<close>: the division is made only when
  the total input is positive.
\<close>

theorem dashboard_no_records:
  "(filter (by_user u) (seedlings_received db) = [] \<and>
    filter (by_user u) (dead_seedlings db) = [] \<and>
    filter (by_user u) (discarded_seedlings db) = [] \<and>
    filter (by_user u) (nursery_produced db) = [] \<longrightarrow>
    get_dashboard_stats db u
      = Inr [(''total_received'', VInt 0), (''total_dead'', VInt 0),
             (''total_discarded'', VInt 0), (''total_produced'', VInt 0),
             (''survival_rate'', VInt 0), (''total_in_nursery'', VInt 0)]) \<and>
   get_dashboard_stats db u \<noteq> Inl (Unhandled ZeroDivisionError)"
proof -
  have "get_dashboard_stats db u \<noteq> Inl (Unhandled ZeroDivisionError)"
  proof (cases "0 < owner_total (seedlings_received db) u + owner_total (nursery_produced db) u")
    case True
    then have "int_truediv (owner_total (seedlings_received db) u + owner_total (nursery_produced db) u
                 - owner_total (dead_seedlings db) u - owner_total (discarded_seedlings db) u)
                (owner_total (seedlings_received db) u + owner_total (nursery_produced db) u)
               \<noteq> Inl ZeroDivisionError"
      by (intro int_truediv_nonzero) simp
    with True show ?thesis
      by (auto simp: get_dashboard_stats_eq Let_def split: sum.splits)
  next
    case False
    then show ?thesis
      by (simp add: get_dashboard_stats_eq Let_def)
  qed
  then show ?thesis
    by (simp add: get_dashboard_stats_eq owner_total_def find_to_list_def)
qed

theorem dashboard_no_records_witness:
  "filter (by_user ''dave'') (seedlings_received ex_db) = [] \<and>
   filter (by_user ''dave'') (dead_seedlings ex_db) = [] \<and>
   filter (by_user ''dave'') (discarded_seedlings ex_db) = [] \<and>
   filter (by_user ''dave'') (nursery_produced ex_db) = [] \<and>
   get_dashboard_stats ex_db ''dave''
      = Inr [(''total_received'', VInt 0), (''total_dead'', VInt 0),
             (''total_discarded'', VInt 0), (''total_produced'', VInt 0),
             (''survival_rate'', VInt 0), (''total_in_nursery'', VInt 0)]"
  using dashboard_no_records [of "''dave''" ex_db]
  by (simp add: ex_db_def by_user_def ex_received_def ex_counted_def ex_produced_def)

section \<open>Dashboard totals and survival rate\<close>

text \<open>
  Claim C3 as it is stated fails on the survival rate, which is not
  \<^verbatim>\<open>round(100 * totalInNursery / totalInput, 2)\<close>. With 160
  seedlings received and 137 dead, 23 remain: the handler computes
  \<^verbatim>\<open>round((23 / 160) * 100, 2)\<close>, where the product is the float just below 14.375, and
  returns 14.37; the expression of the specification gives 14.38, as does rounding the
  exact quotient 14.375 to two decimals.
\<close>

theorem dashboard_survival_rate_counterexample:
  "get_dashboard_stats tie_db ''alice''
     = Inr [(''total_received'', VInt 160), (''total_dead'', VInt 137),
            (''total_discarded'', VInt 0), (''total_produced'', VInt 0),
            (''survival_rate'', VFloat (decimal 1437 2)),
            (''total_in_nursery'', VInt 23)] \<and>
   spec_survival_rate 23 160 = Inr (VFloat (decimal 1438 2)) \<and>
   decimal 1437 2 \<noteq> decimal 1438 2 \<and>
   round_half_even (100 * 23 / 160 * 10 ^ 2) = 1438"
proof -
  have totals:
    "owner_total (seedlings_received tie_db) ''alice'' = 160"
    "owner_total (dead_seedlings tie_db) ''alice'' = 137"
    "owner_total (discarded_seedlings tie_db) ''alice'' = 0"
    "owner_total (nursery_produced tie_db) ''alice'' = 0"
    by (simp_all add: owner_total_def find_to_list_def by_user_def tie_db_def
          empty_db_def ex_received_def ex_counted_def)
  have "int_truediv 23 160 = Inr (Fin (rnd53 (of_int 23 / of_int 160)))"
    by (intro int_truediv_defined quotient_small) simp_all
  then have code: "get_dashboard_stats tie_db ''alice''
     = Inr [(''total_received'', VInt 160), (''total_dead'', VInt 137),
            (''total_discarded'', VInt 0), (''total_produced'', VInt 0),
            (''survival_rate'', VFloat (decimal 1437 2)),
            (''total_in_nursery'', VInt 23)]"
    by (simp add: get_dashboard_stats_eq totals tie_rate)
  have exact: "round_half_even (100 * 23 / 160 * 10 ^ 2) = 1438"
    by code_simp
  from code spec_tie_rate decimals_differ exact show ?thesis
    by (intro conjI)
qed

text \<open>
  The handler divides only when the total input is positive. With a single received
  record of quantity \<open>-5\<close> it returns the survival rate 0, where the unguarded expression
  of the specification gives 100.0.
\<close>

lemma dashboard_nonpositive_input:
  "get_dashboard_stats negative_db ''alice''
     = Inr [(''total_received'', VInt (- 5)), (''total_dead'', VInt 0),
            (''total_discarded'', VInt 0), (''total_produced'', VInt 0),
            (''survival_rate'', VInt 0),
            (''total_in_nursery'', VInt (- 5))] \<and>
   spec_survival_rate (- 5) (- 5) = Inr (VFloat (decimal 10000 2))"
proof -
  have totals:
    "owner_total (seedlings_received negative_db) ''alice'' = - 5"
    "owner_total (dead_seedlings negative_db) ''alice'' = 0"
    "owner_total (discarded_seedlings negative_db) ''alice'' = 0"
    "owner_total (nursery_produced negative_db) ''alice'' = 0"
    by (simp_all add: owner_total_def find_to_list_def by_user_def negative_db_def
          empty_db_def ex_received_def)
  have code: "get_dashboard_stats negative_db ''alice''
     = Inr [(''total_received'', VInt (- 5)), (''total_dead'', VInt 0),
            (''total_discarded'', VInt 0), (''total_produced'', VInt 0),
            (''survival_rate'', VInt 0),
            (''total_in_nursery'', VInt (- 5))]"
    by (simp add: get_dashboard_stats_eq totals)
  have "\<bar>of_int (100 * (- 5)) / of_int (- 5) :: rat\<bar> < overflow_threshold"
    by (simp add: overflow_threshold_def)
  then have "int_truediv (100 * (- 5)) (- 5) = Inr (Fin (rnd53 (of_int (100 * (- 5)) / of_int (- 5))))"
    by (intro int_truediv_defined) simp_all
  moreover have "float_round (Fin (rnd53 (of_int (100 * (- 5)) / of_int (- 5)))) 2
      = Fin (rnd53 (of_int 10000 / 10 ^ 2))"
    by code_simp
  moreover have "decimal 10000 2 = Fin (rnd53 (of_int 10000 / 10 ^ 2))"
    by (rule decimal_small) simp
  ultimately have "spec_survival_rate (- 5) (- 5) = Inr (VFloat (decimal 10000 2))"
    by (simp only: spec_survival_rate_def sum.case)
  with code show ?thesis by (intro conjI)
qed

text \<open>The handler reads at most 1000 records of a collection: of 1001 records of
  quantity 1 it counts 1000.\<close>

lemma dashboard_reads_first_1000:
  "owner_total (seedlings_received big_db) ''alice'' = 1000 \<and>
   sum_list (map (\<lambda>s. quantity (doc s)) (filter (by_user ''alice'') (seedlings_received big_db)))
     = 1001"
  by (simp add: owner_total_def find_to_list_def big_db_def filter_map o_def by_user_def
        big_received_def ex_received_def take_map sum_list_triv)

text \<open>
  Claim C3, amended. Let \<open>r\<close>, \<open>d\<close>, \<open>x\<close> and \<open>p\<close> be the sums of \<^verbatim>\<open>quantity\<close> over the
  first 1000 Received, Dead, Discarded and Produced records of the owner, and
  \<open>n = r + p - d - x\<close>. Unless \<open>n\<close> is astronomically large (\<open>\<bar>n\<bar> \<ge> 2\<^sup>1\<^sup>0\<^sup>2\<^sup>3\<close>), the handler
  returns these four totals, \<open>n\<close> as the total in nursery, and as survival rate
  \<^verbatim>\<open>round((n / (r + p)) * 100, 2)\<close> in float arithmetic, in this order of operations,
  when \<open>r + p > 0\<close>, and 0 otherwise. For Received 10 and 5, Produced 3, Dead 2 and
  Discarded 1 it returns the totals 15, 3, 2 and 1, 15 in nursery and the survival
  rate 83.33.
\<close>

theorem dashboard_totals:
  "(let r = owner_total (seedlings_received db) u;
        d = owner_total (dead_seedlings db) u;
        x = owner_total (discarded_seedlings db) u;
        p = owner_total (nursery_produced db) u;
        n = r + p - d - x
    in \<bar>n\<bar> < 2 ^ 1023 \<longrightarrow>
       get_dashboard_stats db u
         = Inr [(''total_received'', VInt r), (''total_dead'', VInt d),
                (''total_discarded'', VInt x), (''total_produced'', VInt p),
                (''survival_rate'',
                   if 0 < r + p
                   then VFloat (float_round
                                  (float_mul (Fin (rnd53 (of_int n / of_int (r + p)))) (Fin 100)) 2)
                   else VInt 0),
                (''total_in_nursery'', VInt n)]) \<and>
   get_dashboard_stats spec_example_db ''alice''
     = Inr [(''total_received'', VInt 15), (''total_dead'', VInt 2),
            (''total_discarded'', VInt 1), (''total_produced'', VInt 3),
            (''survival_rate'', VFloat (decimal 8333 2)),
            (''total_in_nursery'', VInt 15)]"
proof -
  have general:
    "get_dashboard_stats db' u'
       = Inr [(''total_received'', VInt (owner_total (seedlings_received db') u')),
              (''total_dead'', VInt (owner_total (dead_seedlings db') u')),
              (''total_discarded'', VInt (owner_total (discarded_seedlings db') u')),
              (''total_produced'', VInt (owner_total (nursery_produced db') u')),
              (''survival_rate'',
                 if 0 < owner_total (seedlings_received db') u' + owner_total (nursery_produced db') u'
                 then VFloat (float_round
                        (float_mul (Fin (rnd53 (of_int n / of_int (owner_total (seedlings_received db') u' + owner_total (nursery_produced db') u')))) (Fin 100)) 2)
                 else VInt 0),
              (''total_in_nursery'', VInt n)]"
    if n: "n = owner_total (seedlings_received db') u' + owner_total (nursery_produced db') u'
             - owner_total (dead_seedlings db') u' - owner_total (discarded_seedlings db') u'"
      and small: "\<bar>n\<bar> < 2 ^ 1023"
    for db' u' n
  proof (cases "0 < owner_total (seedlings_received db') u' + owner_total (nursery_produced db') u'")
    case True
    with small have "int_truediv n (owner_total (seedlings_received db') u' + owner_total (nursery_produced db') u')
        = Inr (Fin (rnd53 (of_int n / of_int (owner_total (seedlings_received db') u' + owner_total (nursery_produced db') u'))))"
      by (intro int_truediv_defined quotient_small) simp_all
    with True n show ?thesis
      by (simp add: get_dashboard_stats_eq Let_def)
  next
    case False
    with n show ?thesis
      by (simp add: get_dashboard_stats_eq Let_def)
  qed
  have totals:
    "owner_total (seedlings_received spec_example_db) ''alice'' = 15"
    "owner_total (dead_seedlings spec_example_db) ''alice'' = 2"
    "owner_total (discarded_seedlings spec_example_db) ''alice'' = 1"
    "owner_total (nursery_produced spec_example_db) ''alice'' = 3"
    by (simp_all add: owner_total_def find_to_list_def by_user_def spec_example_db_def
          empty_db_def ex_received_def ex_counted_def ex_produced_def)
  have example: "get_dashboard_stats spec_example_db ''alice''
     = Inr [(''total_received'', VInt 15), (''total_dead'', VInt 2),
            (''total_discarded'', VInt 1), (''total_produced'', VInt 3),
            (''survival_rate'', VFloat (decimal 8333 2)),
            (''total_in_nursery'', VInt 15)]"
    using general [of 15 spec_example_db "''alice''"]
    by (simp add: totals example_rate)
  from general example show ?thesis
    by (simp add: Let_def)
qed

theorem dashboard_totals_witness:
  "\<bar>7 + 2 - 4 - 1 :: int\<bar> < 2 ^ 1023 \<and>
   owner_total (seedlings_received ex_db) ''bob'' = 7 \<and>
   owner_total (dead_seedlings ex_db) ''bob'' = 4 \<and>
   owner_total (discarded_seedlings ex_db) ''bob'' = 1 \<and>
   owner_total (nursery_produced ex_db) ''bob'' = 2 \<and>
   get_dashboard_stats ex_db ''bob''
     = Inr [(''total_received'', VInt 7), (''total_dead'', VInt 4),
            (''total_discarded'', VInt 1), (''total_produced'', VInt 2),
            (''survival_rate'', VFloat (decimal 4444 2)),
            (''total_in_nursery'', VInt 4)]"
proof -
  have totals:
    "owner_total (seedlings_received ex_db) ''bob'' = 7"
    "owner_total (dead_seedlings ex_db) ''bob'' = 4"
    "owner_total (discarded_seedlings ex_db) ''bob'' = 1"
    "owner_total (nursery_produced ex_db) ''bob'' = 2"
    by (simp_all add: owner_total_def find_to_list_def by_user_def ex_db_def
          ex_received_def ex_counted_def ex_produced_def)
  show ?thesis
    using dashboard_totals [of ex_db "''bob''"]
    by (simp add: totals bob_rate Let_def)
qed

section \<open>The CSV export\<close>

lemma section_headers_append:
  "section_headers (xs @ ys) = section_headers xs @ section_headers ys"
proof (induction xs)
  case Nil
  show ?case by simp
next
  case (Cons w ws)
  then show ?case by (cases w) simp_all
qed

lemma section_headers_rows: "section_headers (map (\<lambda>item. WriteRow (f item)) xs) = []"
  by (induction xs) simp_all

lemma export_untouched_by_distributed:
  "export_to_csv (db\<lparr>distributed_seedlings := ds\<rparr>) u = export_to_csv db u"
  by (simp add: export_to_csv_def)

lemma export_headers:
  "section_headers (export_to_csv db u) =
     [''\<newline>=== SEEDLINGS RECEIVED ===\<newline>'',
      ''\<newline>\<newline>=== DELIVERY NOTES ===\<newline>'',
      ''\<newline>\<newline>=== DEAD SEEDLINGS ===\<newline>'',
      ''\<newline>\<newline>=== DISCARDED SEEDLINGS ===\<newline>'',
      ''\<newline>\<newline>=== NURSERY PRODUCED ===\<newline>'']"
  by (simp add: export_to_csv_def Let_def section_headers_append section_headers_rows)

lemma export_empty:
  assumes "filter (by_user u) (seedlings_received db) = []"
    and "filter (by_user u) (delivery_notes db) = []"
    and "filter (by_user u) (dead_seedlings db) = []"
    and "filter (by_user u) (discarded_seedlings db) = []"
    and "filter (by_user u) (nursery_produced db) = []"
  shows "export_to_csv db u =
     [Write ''\<newline>=== SEEDLINGS RECEIVED ===\<newline>'',
      Write ''\<newline>\<newline>=== DELIVERY NOTES ===\<newline>'',
      Write ''\<newline>\<newline>=== DEAD SEEDLINGS ===\<newline>'',
      Write ''\<newline>\<newline>=== DISCARDED SEEDLINGS ===\<newline>'',
      Write ''\<newline>\<newline>=== NURSERY PRODUCED ===\<newline>'']"
  using assms by (simp add: export_to_csv_def find_to_list_def)

text \<open>
  Claim C8. The export writes exactly five section headers, in the order Received,
  Delivery Notes, Dead, Discarded, Produced, for every store and every owner; for an
  owner with no record in any of the five collections it writes nothing else (no column
  line and no data row), so that the text is the five headers; and the export does not
  depend on the collection of distributed seedlings.
\<close>

theorem export_five_sections:
  "section_headers (export_to_csv db u) =
     [''\<newline>=== SEEDLINGS RECEIVED ===\<newline>'',
      ''\<newline>\<newline>=== DELIVERY NOTES ===\<newline>'',
      ''\<newline>\<newline>=== DEAD SEEDLINGS ===\<newline>'',
      ''\<newline>\<newline>=== DISCARDED SEEDLINGS ===\<newline>'',
      ''\<newline>\<newline>=== NURSERY PRODUCED ===\<newline>''] \<and>
   (filter (by_user u) (seedlings_received db) = [] \<and>
    filter (by_user u) (delivery_notes db) = [] \<and>
    filter (by_user u) (dead_seedlings db) = [] \<and>
    filter (by_user u) (discarded_seedlings db) = [] \<and>
    filter (by_user u) (nursery_produced db) = [] \<longrightarrow>
      table_writes (export_to_csv db u) = [] \<and>
      getvalue csv_line (export_to_csv db u) =
        ''\<newline>=== SEEDLINGS RECEIVED ===\<newline>''
        @ ''\<newline>\<newline>=== DELIVERY NOTES ===\<newline>''
        @ ''\<newline>\<newline>=== DEAD SEEDLINGS ===\<newline>''
        @ ''\<newline>\<newline>=== DISCARDED SEEDLINGS ===\<newline>''
        @ ''\<newline>\<newline>=== NURSERY PRODUCED ===\<newline>'') \<and>
   export_to_csv (db\<lparr>distributed_seedlings := ds\<rparr>) u = export_to_csv db u"
proof -
  have "table_writes (export_to_csv db u) = [] \<and>
      getvalue csv_line (export_to_csv db u) =
        ''\<newline>=== SEEDLINGS RECEIVED ===\<newline>''
        @ ''\<newline>\<newline>=== DELIVERY NOTES ===\<newline>''
        @ ''\<newline>\<newline>=== DEAD SEEDLINGS ===\<newline>''
        @ ''\<newline>\<newline>=== DISCARDED SEEDLINGS ===\<newline>''
        @ ''\<newline>\<newline>=== NURSERY PRODUCED ===\<newline>''"
    if "filter (by_user u) (seedlings_received db) = []"
      "filter (by_user u) (delivery_notes db) = []"
      "filter (by_user u) (dead_seedlings db) = []"
      "filter (by_user u) (discarded_seedlings db) = []"
      "filter (by_user u) (nursery_produced db) = []"
    using export_empty [OF that] by simp
  with export_headers export_untouched_by_distributed show ?thesis
    by blast
qed

theorem export_five_sections_witness:
  "filter (by_user ''dave'') (seedlings_received ex_db) = [] \<and>
   filter (by_user ''dave'') (delivery_notes ex_db) = [] \<and>
   filter (by_user ''dave'') (dead_seedlings ex_db) = [] \<and>
   filter (by_user ''dave'') (discarded_seedlings ex_db) = [] \<and>
   filter (by_user ''dave'') (nursery_produced ex_db) = [] \<and>
   table_writes (export_to_csv ex_db ''dave'') = [] \<and>
   section_headers (export_to_csv ex_db ''dave'') =
     [''\<newline>=== SEEDLINGS RECEIVED ===\<newline>'',
      ''\<newline>\<newline>=== DELIVERY NOTES ===\<newline>'',
      ''\<newline>\<newline>=== DEAD SEEDLINGS ===\<newline>'',
      ''\<newline>\<newline>=== DISCARDED SEEDLINGS ===\<newline>'',
      ''\<newline>\<newline>=== NURSERY PRODUCED ===\<newline>'']"
  using export_five_sections [of ex_db "''dave''"]
  by (simp add: ex_db_def by_user_def ex_received_def ex_note_def ex_counted_def ex_produced_def)

section \<open>The identifier invariant\<close>

text \<open>
  Identifiers are unique within each collection of the empty store, and every handler
  that changes the store keeps them unique: the hypothesis \<open>unique_ids\<close> of the
  owner-scoping theorem holds in every state the handlers can reach.
\<close>

lemma delete_one_unique:
  "distinct (map doc_id coll) \<Longrightarrow> distinct (map doc_id (snd (delete_one coll flt)))"
proof (induction coll)
  case Nil
  show ?case by simp
next
  case (Cons d ds)
  obtain n ds' where eq: "delete_one ds flt = (n, ds')"
    by force
  with delete_one_subset [of ds flt] have sub: "set ds' \<subseteq> set ds"
    by simp
  from Cons eq have "distinct (map doc_id ds')"
    by simp
  moreover from Cons.prems sub have "doc_id d \<notin> doc_id ` set ds'"
    by auto
  ultimately show ?case
    using Cons.prems eq by simp
qed

lemma unique_ids_empty: "unique_ids empty_db"
  by (simp add: unique_ids_def empty_db_def)

lemma register_keeps_unique_ids:
  "unique_ids db \<Longrightarrow> unique_ids (snd (register db now salt i user))"
  by (simp add: register_eq unique_ids_def)

lemma create_seedling_received_keeps_unique_ids:
  "unique_ids db \<Longrightarrow> unique_ids (snd (create_seedling_received db i p u))"
  by (simp add: create_seedling_received_eq unique_ids_def)

lemma delete_seedling_received_store:
  "snd (delete_seedling_received db s u) =
     (case ObjectId s of
        Inl e \<Rightarrow> db
      | Inr oid \<Rightarrow> db\<lparr>seedlings_received := snd (delete_one (seedlings_received db) (by_id_user oid u))\<rparr>)"
  by (simp add: delete_seedling_received_def split: sum.splits prod.splits)

lemma delete_seedling_received_keeps_unique_ids:
  "unique_ids db \<Longrightarrow> unique_ids (snd (delete_seedling_received db s u))"
  by (simp add: delete_seedling_received_store unique_ids_def delete_one_unique split: sum.splits)

lemma create_delivery_note_keeps_unique_ids:
  "unique_ids db \<Longrightarrow> unique_ids (snd (create_delivery_note db i p u))"
  by (simp add: create_delivery_note_eq unique_ids_def)

lemma delete_delivery_note_store:
  "snd (delete_delivery_note db s u) =
     (case ObjectId s of
        Inl e \<Rightarrow> db
      | Inr oid \<Rightarrow> db\<lparr>delivery_notes := snd (delete_one (delivery_notes db) (by_id_user oid u))\<rparr>)"
  by (simp add: delete_delivery_note_def split: sum.splits prod.splits)

lemma delete_delivery_note_keeps_unique_ids:
  "unique_ids db \<Longrightarrow> unique_ids (snd (delete_delivery_note db s u))"
  by (simp add: delete_delivery_note_store unique_ids_def delete_one_unique split: sum.splits)

lemma create_dead_seedling_keeps_unique_ids:
  "unique_ids db \<Longrightarrow> unique_ids (snd (create_dead_seedling db i p u))"
  by (simp add: create_dead_seedling_eq unique_ids_def)

lemma delete_dead_seedling_store:
  "snd (delete_dead_seedling db s u) =
     (case ObjectId s of
        Inl e \<Rightarrow> db
      | Inr oid \<Rightarrow> db\<lparr>dead_seedlings := snd (delete_one (dead_seedlings db) (by_id_user oid u))\<rparr>)"
  by (simp add: delete_dead_seedling_def split: sum.splits prod.splits)

lemma delete_dead_seedling_keeps_unique_ids:
  "unique_ids db \<Longrightarrow> unique_ids (snd (delete_dead_seedling db s u))"
  by (simp add: delete_dead_seedling_store unique_ids_def delete_one_unique split: sum.splits)

lemma create_discarded_seedling_keeps_unique_ids:
  "unique_ids db \<Longrightarrow> unique_ids (snd (create_discarded_seedling db i p u))"
  by (simp add: create_discarded_seedling_eq unique_ids_def)

lemma delete_discarded_seedling_store:
  "snd (delete_discarded_seedling db s u) =
     (case ObjectId s of
        Inl e \<Rightarrow> db
      | Inr oid \<Rightarrow> db\<lparr>discarded_seedlings := snd (delete_one (discarded_seedlings db) (by_id_user oid u))\<rparr>)"
  by (simp add: delete_discarded_seedling_def split: sum.splits prod.splits)

lemma delete_discarded_seedling_keeps_unique_ids:
  "unique_ids db \<Longrightarrow> unique_ids (snd (delete_discarded_seedling db s u))"
  by (simp add: delete_discarded_seedling_store unique_ids_def delete_one_unique split: sum.splits)

lemma create_nursery_produced_keeps_unique_ids:
  "unique_ids db \<Longrightarrow> unique_ids (snd (create_nursery_produced db i p u))"
  by (simp add: create_nursery_produced_eq unique_ids_def)

lemma delete_nursery_produced_store:
  "snd (delete_nursery_produced db s u) =
     (case ObjectId s of
        Inl e \<Rightarrow> db
      | Inr oid \<Rightarrow> db\<lparr>nursery_produced := snd (delete_one (nursery_produced db) (by_id_user oid u))\<rparr>)"
  by (simp add: delete_nursery_produced_def split: sum.splits prod.splits)

lemma delete_nursery_produced_keeps_unique_ids:
  "unique_ids db \<Longrightarrow> unique_ids (snd (delete_nursery_produced db s u))"
  by (simp add: delete_nursery_produced_store unique_ids_def delete_one_unique split: sum.splits)

lemma create_distributed_seedling_keeps_unique_ids:
  "unique_ids db \<Longrightarrow> unique_ids (snd (create_distributed_seedling db i p u))"
  by (simp add: create_distributed_seedling_eq unique_ids_def)

lemma delete_distributed_seedling_store:
  "snd (delete_distributed_seedling db s u) =
     (case ObjectId s of
        Inl e \<Rightarrow> db
      | Inr oid \<Rightarrow> db\<lparr>distributed_seedlings := snd (delete_one (distributed_seedlings db) (by_id_user oid u))\<rparr>)"
  by (simp add: delete_distributed_seedling_def split: sum.splits prod.splits)

lemma delete_distributed_seedling_keeps_unique_ids:
  "unique_ids db \<Longrightarrow> unique_ids (snd (delete_distributed_seedling db s u))"
  by (simp add: delete_distributed_seedling_store unique_ids_def delete_one_unique split: sum.splits)

section \<open>Properties of the rounding\<close>

text \<open>
  \<open>binexp\<close> is the binary exponent, and \<open>rnd53 x\<close> is an integer of at most 53 bits
  times the unit in the last place, no further than half that unit from \<open>x\<close>: it is
  a nearest binary64 number.
\<close>

lemma pow2_powi: "pow2 k = 2 powi k"
  by (simp add: pow2_def power_int_def field_simps)

lemma pow2_pos: "0 < pow2 k"
  by (simp add: pow2_powi)

lemma pow2_diff: "pow2 (a - b) = pow2 a / pow2 b"
  by (simp add: pow2_powi power_int_diff)

lemma pow2_nat: "0 \<le> k \<Longrightarrow> pow2 k = 2 ^ nat k"
  by (simp add: pow2_def)

lemma pow2_bitlen:
  assumes "0 < p"
  shows "pow2 (bitlen p - 1) \<le> of_int p" and "of_int p < pow2 (bitlen p)"
proof -
  from assms have b: "2 ^ nat (bitlen p - 1) \<le> p" "p < 2 ^ nat (bitlen p)"
    using bitlen_bounds [of p] by simp_all
  from assms have ge: "1 \<le> bitlen p"
    by (simp add: bitlen_alt_def)
  from b(1) have "(of_int (2 ^ nat (bitlen p - 1)) :: rat) \<le> of_int p"
    by (simp only: of_int_le_iff)
  with ge show "pow2 (bitlen p - 1) \<le> of_int p"
    by (simp add: pow2_nat)
  from b(2) have "(of_int p :: rat) < of_int (2 ^ nat (bitlen p))"
    by (simp only: of_int_less_iff)
  with ge show "of_int p < pow2 (bitlen p)"
    by (simp add: pow2_nat)
qed

lemma binexp_bounds:
  assumes "x \<noteq> 0"
  shows "pow2 (binexp x) \<le> \<bar>x\<bar> \<and> \<bar>x\<bar> < pow2 (binexp x + 1)"
proof -
  obtain p q where pq: "quotient_of \<bar>x\<bar> = (p, q)" by force
  then have q: "0 < q" and x: "\<bar>x\<bar> = of_int p / of_int q"
    by (simp_all add: quotient_of_denom_pos quotient_of_div)
  from assms have "0 < \<bar>x\<bar>" by simp
  with x q have p: "0 < p"
    by (simp add: zero_less_divide_iff)
  let ?k = "bitlen p - bitlen q"
  have up: "\<bar>x\<bar> < pow2 (?k + 1)"
  proof -
    have "of_int p / of_int q < pow2 (bitlen p) / (of_int q :: rat)"
      using pow2_bitlen(2) [OF p] q by (simp add: divide_strict_right_mono)
    also have "\<dots> \<le> pow2 (bitlen p) / pow2 (bitlen q - 1)"
      using pow2_bitlen(1) [OF q] pow2_pos [of "bitlen p"] pow2_pos [of "bitlen q - 1"]
      by (intro divide_left_mono) (simp_all add: less_imp_le)
    also have "\<dots> = pow2 (bitlen p - (bitlen q - 1))"
      by (simp only: pow2_diff)
    finally show ?thesis
      by (simp add: x algebra_simps)
  qed
  have low: "pow2 (?k - 1) \<le> \<bar>x\<bar>"
  proof -
    have "pow2 (?k - 1) = pow2 (bitlen p - 1) / pow2 (bitlen q)"
      by (simp only: pow2_diff [symmetric]) (simp add: algebra_simps)
    also have "\<dots> \<le> of_int p / pow2 (bitlen q)"
      using pow2_bitlen(1) [OF p] pow2_pos [of "bitlen q"]
      by (simp add: divide_right_mono less_imp_le)
    also have "\<dots> \<le> of_int p / of_int q"
      using pow2_bitlen(2) [OF q] p q
      by (intro divide_left_mono) (simp_all add: less_imp_le)
    finally show ?thesis
      by (simp add: x)
  qed
  show ?thesis
  proof (cases "pow2 ?k \<le> \<bar>x\<bar>")
    case True
    then have "binexp x = ?k"
      by (simp add: binexp_def pq Let_def)
    with True up show ?thesis by simp
  next
    case False
    then have "binexp x = ?k - 1"
      by (simp add: binexp_def pq Let_def)
    with False low show ?thesis by simp
  qed
qed


lemma round_half_even_near: "\<bar>of_int (round_half_even y) - y\<bar> \<le> 1 / 2"
proof -
  have "0 \<le> y - of_int \<lfloor>y\<rfloor>" "y - of_int \<lfloor>y\<rfloor> < 1"
    by linarith+
  then show ?thesis
    by (auto simp: round_half_even_def Let_def abs_le_iff)
qed

lemma round_half_even_mono_bound:
  assumes "\<bar>y\<bar> \<le> of_int n"
  shows "\<bar>round_half_even y\<bar> \<le> n"
proof -
  from assms have "- of_int n \<le> y" "y \<le> of_int n"
    by (simp_all add: abs_le_iff)
  then have "- n \<le> \<lfloor>y\<rfloor>" "\<lfloor>y\<rfloor> \<le> n" "\<lfloor>y\<rfloor> = n \<longrightarrow> y = of_int n"
    by (simp_all add: le_floor_iff floor_le_iff) linarith+
  then show ?thesis
    by (auto simp: round_half_even_def Let_def abs_le_iff)
qed

lemma rnd53_error:
  assumes "x \<noteq> 0"
  shows "\<bar>rnd53 x - x\<bar> \<le> pow2 (max (binexp x) (- 1022) - 53)"
proof -
  let ?e = "max (binexp x) (- 1022)"
  let ?u = "pow2 (?e - 52)"
  have u: "0 < ?u" by (rule pow2_pos)
  have "rnd53 x - x = (of_int (round_half_even (x / ?u)) - x / ?u) * ?u"
    using assms u by (simp add: rnd53_def Let_def algebra_simps)
  then have "\<bar>rnd53 x - x\<bar> = \<bar>of_int (round_half_even (x / ?u)) - x / ?u\<bar> * ?u"
    using u by (simp add: abs_mult)
  also have "\<dots> \<le> 1 / 2 * ?u"
    using round_half_even_near [of "x / ?u"] u by (intro mult_right_mono) simp_all
  also have "\<dots> = pow2 (?e - 53)"
    by (simp add: pow2_powi power_int_diff)
  finally show ?thesis .
qed

lemma rnd53_significand:
  assumes "x \<noteq> 0"
  shows "\<exists>m. rnd53 x = of_int m * pow2 (max (binexp x) (- 1022) - 52) \<and> \<bar>m\<bar> \<le> 2 ^ 53"
proof -
  let ?e = "max (binexp x) (- 1022)"
  let ?u = "pow2 (?e - 52)"
  have u: "0 < ?u" by (rule pow2_pos)
  have "\<bar>x\<bar> < pow2 (binexp x + 1)"
    using binexp_bounds [OF assms] by simp
  also have "\<dots> \<le> pow2 (?e + 1)"
    by (simp add: pow2_powi power_int_increasing)
  also have "\<dots> = 2 ^ 53 * ?u"
    by (simp add: pow2_powi power_int_diff power_int_add)
  finally have "\<bar>x / ?u\<bar> \<le> 2 ^ 53"
    using u by (simp add: abs_divide pos_divide_le_eq less_imp_le)
  then have "\<bar>x / ?u\<bar> \<le> of_int (2 ^ 53)"
    by simp
  then have "\<bar>round_half_even (x / ?u)\<bar> \<le> 2 ^ 53"
    by (rule round_half_even_mono_bound)
  moreover have "rnd53 x = of_int (round_half_even (x / ?u)) * ?u"
    using assms by (simp add: rnd53_def Let_def)
  ultimately show ?thesis by blast
qed

end
